theory Spec2Isabelle
  imports Complex_Main
begin

section \<open>Numbers, rounding and exceptions\<close>

text \<open>
  A finite Python float is modelled as the rational number it denotes; the infinities and
  NaN are values of their own (\<open>pyfloat\<close>). Latencies are differences of clock readings
  and are finite. Sums, products and quotients of latencies are taken exactly.

  Python's \<^verbatim>\<open>round(x, n)\<close> rounds to \<open>n\<close> decimals, ties going to the even
  neighbour. \<^verbatim>\<open>a / b\<close> raises ZeroDivisionError when \<open>b\<close> is zero.
\<close>

datatype py_exc =
  TypeError | ValueError | OverflowError | ZeroDivisionError | NotImplementedError
  | RequestException | JSONDecodeError | TimeoutException | WebDriverException | OtherException

datatype pyfloat = Finite rat | PosInf | NegInf | NaN

definition round_half_even :: "rat \<Rightarrow> int" where
  "round_half_even x =
     (let f = \<lfloor>x\<rfloor>; d = x - of_int f
      in if d < 1 / 2 then f
         else if 1 / 2 < d then f + 1
         else if even f then f else f + 1)"

definition py_round :: "rat \<Rightarrow> nat \<Rightarrow> rat" where
  "py_round x n = of_int (round_half_even (x * 10 ^ n)) / 10 ^ n"

definition py_truediv :: "rat \<Rightarrow> rat \<Rightarrow> py_exc + rat" where
  "py_truediv a b = (if b = 0 then Inl ZeroDivisionError else Inr (a / b))"

section \<open>Metrics (step1\_scraping\_unified.py)\<close>

text \<open>
  \<^verbatim>\<open>
  class Metrics:
      def __init__(self):
          self.request_count = 0
          self.total_bytes = 0
          self.latencies = []
      def record(self, latency_s, bytes_count):
          self.request_count += 1
          self.total_bytes += max(0, int(bytes_count))
          self.latencies.append(max(0.0, float(latency_s)))
      def summary(self):
          if self.latencies:
              avg_ms = 1000.0 * (sum(self.latencies) / len(self.latencies))
          else:
              avg_ms = 0.0
          return {"requests": self.request_count, "bytes": self.total_bytes,
                  "avg_latency_ms": round(avg_ms, 2),
                  "total_latency_s": round(sum(self.latencies), 3)}
  \<close>
  Every caller passes a byte length (\<^verbatim>\<open>len(...)\<close>) and a difference of two clock
  readings, so \<^verbatim>\<open>int(...)\<close> and \<^verbatim>\<open>float(...)\<close> are identities there. The
  division in \<open>summary\<close> is the only operation that can raise; its error is a result
  of the model (\<open>Inl\<close>).
\<close>

record metrics =
  request_count :: int
  total_bytes :: int
  latencies :: "rat list"

record summary =
  requests :: int
  bytes :: int
  avg_latency_ms :: rat
  total_latency_s :: rat

definition Metrics_init :: metrics where
  "Metrics_init = \<lparr>request_count = 0, total_bytes = 0, latencies = []\<rparr>"

definition Metrics_record :: "metrics \<Rightarrow> rat \<Rightarrow> int \<Rightarrow> metrics" where
  "Metrics_record M latency_s bytes_count =
     M\<lparr>request_count := request_count M + 1,
       total_bytes := total_bytes M + max 0 bytes_count,
       latencies := latencies M @ [max 0 latency_s]\<rparr>"

definition Metrics_summary :: "metrics \<Rightarrow> py_exc + summary" where
  "Metrics_summary M =
     (case (if latencies M \<noteq> []
            then (case py_truediv (sum_list (latencies M)) (of_nat (length (latencies M))) of
                    Inl e \<Rightarrow> Inl e
                  | Inr q \<Rightarrow> Inr (1000 * q))
            else Inr 0) of
        Inl e \<Rightarrow> Inl e
      | Inr avg_ms \<Rightarrow>
          Inr \<lparr>requests = request_count M, bytes = total_bytes M,
               avg_latency_ms = py_round avg_ms 2,
               total_latency_s = py_round (sum_list (latencies M)) 3\<rparr>)"


section \<open>Metrics (step3b\_multithreading\_scrapers.py)\<close>

text \<open>
  \<^verbatim>\<open>
  class Metrics:
      def __init__(self):
          self.count = 0; self.bytes = 0; self.latencies = []
      def record(self, latency, size):
          self.count += 1; self.bytes += max(0, int(size)); self.latencies.append(max(0.0, float(latency)))
      def summary(self):
          avg_ms = (sum(self.latencies)/len(self.latencies)*1000.0) if self.latencies else 0.0
          return {"requests": self.count, "bytes": self.bytes, "avg_latency_ms": round(avg_ms,2),
                  "total_latency_s": round(sum(self.latencies),3)}
  \<close>
\<close>

record metrics_mt =
  mt_count :: int
  mt_bytes :: int
  mt_latencies :: "rat list"

definition MetricsMT_init :: metrics_mt where
  "MetricsMT_init = \<lparr>mt_count = 0, mt_bytes = 0, mt_latencies = []\<rparr>"

definition MetricsMT_record :: "metrics_mt \<Rightarrow> rat \<Rightarrow> int \<Rightarrow> metrics_mt" where
  "MetricsMT_record M latency sz =
     M\<lparr>mt_count := mt_count M + 1,
       mt_bytes := mt_bytes M + max 0 sz,
       mt_latencies := mt_latencies M @ [max 0 latency]\<rparr>"

definition MetricsMT_summary :: "metrics_mt \<Rightarrow> py_exc + summary" where
  "MetricsMT_summary M =
     (case (if mt_latencies M \<noteq> []
            then (case py_truediv (sum_list (mt_latencies M)) (of_nat (length (mt_latencies M))) of
                    Inl e \<Rightarrow> Inl e
                  | Inr q \<Rightarrow> Inr (q * 1000))
            else Inr 0) of
        Inl e \<Rightarrow> Inl e
      | Inr avg_ms \<Rightarrow>
          Inr \<lparr>requests = mt_count M, bytes = mt_bytes M,
               avg_latency_ms = py_round avg_ms 2,
               total_latency_s = py_round (sum_list (mt_latencies M)) 3\<rparr>)"

section \<open>Python values and strings\<close>

text \<open>
  The values a JSON field, a DOM attribute or a cell of an output row can hold
  (\<open>PyOther\<close> stands for a JSON array or object). The sentinel of the record schema is
  the string \<^verbatim>\<open>"N/A"\<close>, as in the source.
\<close>

datatype pyval = PyNone | PyBool bool | PyInt int | PyFloat pyfloat | PyStr string | PyOther

definition NA :: string where
  "NA = ''N/A''"

text \<open>\<^verbatim>\<open>a or b\<close> on values that are a string or \<^verbatim>\<open>None\<close>.\<close>

definition py_or :: "string option \<Rightarrow> string option \<Rightarrow> string option" where
  "py_or a b = (case a of None \<Rightarrow> b | Some s \<Rightarrow> if s \<noteq> [] then Some s else b)"

definition of_opt_str :: "string option \<Rightarrow> pyval" where
  "of_opt_str a = (case a of None \<Rightarrow> PyNone | Some s \<Rightarrow> PyStr s)"

text \<open>\<^verbatim>\<open>str(n)\<close> on integers.\<close>

definition digit_char :: "nat \<Rightarrow> char" where
  "digit_char d = char_of (48 + d)"

fun str_nat :: "nat \<Rightarrow> string" where
  "str_nat n = (if n < 10 then [digit_char n] else str_nat (n div 10) @ [digit_char (n mod 10)])"

declare str_nat.simps [simp del]

definition str_int :: "int \<Rightarrow> string" where
  "str_int i = (if i < 0 then CHR ''-'' # str_nat (nat (- i)) else str_nat (nat i))"

text \<open>\<^verbatim>\<open>sep.join(xs)\<close> and \<^verbatim>\<open>s.strip()\<close> (ASCII white space).\<close>

fun py_join :: "string \<Rightarrow> string list \<Rightarrow> string" where
  "py_join sep [] = []"
| "py_join sep [x] = x"
| "py_join sep (x # y # ys) = x @ sep @ py_join sep (y # ys)"

definition is_space :: "char \<Rightarrow> bool" where
  "is_space c = (of_char c \<in> {9, 10, 11, 12, 13, 28, 29, 30, 31, 32 :: nat})"

definition py_strip :: "string \<Rightarrow> string" where
  "py_strip s = rev (dropWhile is_space (rev (dropWhile is_space s)))"

text \<open>\<^verbatim>\<open>xs[:n]\<close>: a negative bound counts from the end.\<close>

definition py_take :: "int \<Rightarrow> 'a list \<Rightarrow> 'a list" where
  "py_take n xs = (if 0 \<le> n then take (nat n) xs else take (nat (int (length xs) + n)) xs)"

section \<open>Record normalizer\<close>

subsection \<open>normalize\_rating\<close>

text \<open>
  \<^verbatim>\<open>
  def normalize_rating(x):
      try:
          v = float(x)
          if v > 10:  # guard against 0-100 scale
              v = v / 10.0
          return round(max(0.0, min(10.0, v)), 1)
      except Exception:
          return "N/A"
  \<close>
  \<^verbatim>\<open>norm_rating\<close> of step3c\_proxy\_tor\_runner.py and \<^verbatim>\<open>normalize_rating\<close> of
  step3b\_multithreading\_scrapers.py are the same function written on one line.

  Two services of the interpreter are parameters of the model (\<open>floats\<close>): how
  \<^verbatim>\<open>float\<close> reads a string (a float, or nothing when it raises ValueError), and which
  double is nearest to a rational number, the value that a float division, the conversion
  of an integer and \<^verbatim>\<open>round\<close> return. Every statement below holds for every choice of
  the two, so for the interpreter's.

  \<^verbatim>\<open>float\<close> raises TypeError on \<^verbatim>\<open>None\<close>, on a list and on a dictionary, and
  OverflowError on an integer that rounds to \<open>2 ^ 1024\<close> or beyond; a boolean is 1.0 or
  0.0. Comparisons with NaN are false; \<^verbatim>\<open>min(a, b)\<close> is \<open>b\<close> when \<open>b < a\<close> and
  \<open>a\<close> otherwise, \<^verbatim>\<open>max(a, b)\<close> is \<open>b\<close> when \<open>b > a\<close> and \<open>a\<close> otherwise;
  \<^verbatim>\<open>round(x, 1)\<close> leaves an infinity or NaN as it is. The handler catches every
  \<^verbatim>\<open>Exception\<close>, so the function has no error result.
\<close>

record floats =
  str_to_float :: "string \<Rightarrow> pyfloat option"
  to_double :: "rat \<Rightarrow> rat"

definition int_overflows :: "int \<Rightarrow> bool" where
  "int_overflows i = (2 ^ 1024 - 2 ^ 970 \<le> \<bar>i\<bar>)"

definition py_float :: "floats \<Rightarrow> pyval \<Rightarrow> py_exc + pyfloat" where
  "py_float F x =
     (case x of
        PyNone \<Rightarrow> Inl TypeError
      | PyBool b \<Rightarrow> Inr (Finite (if b then 1 else 0))
      | PyInt i \<Rightarrow> if int_overflows i then Inl OverflowError else Inr (Finite (to_double F (of_int i)))
      | PyFloat v \<Rightarrow> Inr v
      | PyStr s \<Rightarrow> (case str_to_float F s of None \<Rightarrow> Inl ValueError | Some v \<Rightarrow> Inr v)
      | PyOther \<Rightarrow> Inl TypeError)"

fun fl_less :: "pyfloat \<Rightarrow> pyfloat \<Rightarrow> bool" where
  "fl_less NaN b = False"
| "fl_less a NaN = False"
| "fl_less (Finite a) (Finite b) = (a < b)"
| "fl_less PosInf b = False"
| "fl_less a NegInf = False"
| "fl_less a b = True"

fun fl_div :: "floats \<Rightarrow> pyfloat \<Rightarrow> rat \<Rightarrow> pyfloat" where
  "fl_div F (Finite a) b = Finite (to_double F (a / b))"
| "fl_div F v b = v"

fun fl_round :: "floats \<Rightarrow> pyfloat \<Rightarrow> nat \<Rightarrow> pyfloat" where
  "fl_round F (Finite a) n = Finite (to_double F (py_round a n))"
| "fl_round F v n = v"

definition py_min :: "pyfloat \<Rightarrow> pyfloat \<Rightarrow> pyfloat" where
  "py_min a b = (if fl_less b a then b else a)"

definition py_max :: "pyfloat \<Rightarrow> pyfloat \<Rightarrow> pyfloat" where
  "py_max a b = (if fl_less a b then b else a)"

definition normalize_rating :: "floats \<Rightarrow> pyval \<Rightarrow> pyval" where
  "normalize_rating F x =
     (case py_float F x of
        Inl e \<Rightarrow> PyStr NA
      | Inr v0 \<Rightarrow>
          (let v = (if fl_less (Finite 10) v0 then fl_div F v0 10 else v0)
           in PyFloat (fl_round F (py_max (Finite 0) (py_min (Finite 10) v)) 1)))"

text \<open>
  The specification's clamp, and its \<open>round(clamp(r / 10, 0, 10), 1)\<close> and
  \<open>round(r, 1)\<close> in float arithmetic.
\<close>

definition clamp :: "rat \<Rightarrow> rat \<Rightarrow> rat \<Rightarrow> rat" where
  "clamp v lo hi = (if v < lo then lo else if hi < v then hi else v)"

definition round_float :: "floats \<Rightarrow> rat \<Rightarrow> nat \<Rightarrow> rat" where
  "round_float F v n = to_double F (py_round v n)"

definition div_float :: "floats \<Rightarrow> rat \<Rightarrow> rat \<Rightarrow> rat" where
  "div_float F a b = to_double F (a / b)"

subsection \<open>normalize\_date\<close>

text \<open>
  \<^verbatim>\<open>
  def normalize_date(s):
      dt = pd.to_datetime(s, errors="coerce")
      return dt.strftime("%Y-%m-%d") if not pd.isna(dt) else "N/A"
  \<close>
  The argument is a JSON string or \<^verbatim>\<open>None\<close>. \<^verbatim>\<open>pd.to_datetime\<close> belongs to
  pandas; it is the parameter \<open>to_datetime\<close>, which answers with a date or with nothing
  (\<^verbatim>\<open>NaT\<close>, or \<^verbatim>\<open>None\<close> for \<^verbatim>\<open>None\<close>). Only the date part of the timestamp is
  printed.

  \<^verbatim>\<open>strftime\<close> prints \<^verbatim>\<open>%m\<close> and \<^verbatim>\<open>%d\<close> with two digits and \<^verbatim>\<open>%Y\<close> as the
  year's decimal digits without padding, so the year 1 is printed as \<^verbatim>\<open>1-01-01\<close>. A
  timestamp outside the years 1 to 9999 cannot be printed: \<^verbatim>\<open>strftime\<close> raises, and
  nothing in \<^verbatim>\<open>normalize_date\<close> catches it.
\<close>

record date =
  year :: int
  month :: nat
  day :: nat

definition zpad :: "nat \<Rightarrow> string \<Rightarrow> string" where
  "zpad k s = replicate (k - length s) CHR ''0'' @ s"

definition strftime_ymd :: "date \<Rightarrow> py_exc + string" where
  "strftime_ymd d =
     (if year d < 1 \<or> 9999 < year d then Inl NotImplementedError
      else Inr (str_int (year d) @ ''-'' @ zpad 2 (str_nat (month d)) @ ''-'' @ zpad 2 (str_nat (day d))))"

definition normalize_date :: "(string option \<Rightarrow> date option) \<Rightarrow> string option \<Rightarrow> py_exc + string" where
  "normalize_date to_datetime s =
     (case to_datetime s of Some dt \<Rightarrow> strftime_ymd dt | None \<Rightarrow> Inr NA)"


text \<open>
  Calendar dates, and the ISO 8601 text \<^verbatim>\<open>YYYY-MM-DD\<close> of a date, with the year on four
  digits.
\<close>

definition leap_year :: "int \<Rightarrow> bool" where
  "leap_year y = (y mod 4 = 0 \<and> (y mod 100 \<noteq> 0 \<or> y mod 400 = 0))"

definition days_in_month :: "int \<Rightarrow> nat \<Rightarrow> nat" where
  "days_in_month y m =
     (if m = 2 then (if leap_year y then 29 else 28)
      else if m = 4 \<or> m = 6 \<or> m = 9 \<or> m = 11 then 30 else 31)"

definition calendar_date :: "date \<Rightarrow> bool" where
  "calendar_date d =
     (1 \<le> month d \<and> month d \<le> 12 \<and> 1 \<le> day d \<and> day d \<le> days_in_month (year d) (month d))"


text \<open>
  Two date readers on which the function is run. \<open>iso_to_datetime\<close> reads exactly the
  ISO texts of calendar dates. \<open>short_year_reader\<close> reads the ISO text of the first day of
  the year 1 as that day, and answers \<open>second\<close> for the text \<^verbatim>\<open>1-01-01\<close>.
\<close>

definition is_digit :: "char \<Rightarrow> bool" where
  "is_digit c = (48 \<le> (of_char c :: nat) \<and> (of_char c :: nat) \<le> 57)"

definition digit_val :: "char \<Rightarrow> nat" where
  "digit_val c = of_char c - 48"

definition nat_of_digits :: "string \<Rightarrow> nat" where
  "nat_of_digits ds = foldl (\<lambda>a c. 10 * a + digit_val c) 0 ds"

definition iso_to_datetime :: "string option \<Rightarrow> date option" where
  "iso_to_datetime s =
     (case s of
        None \<Rightarrow> None
      | Some t \<Rightarrow>
          (if length t = 10 \<and> t ! 4 = CHR ''-'' \<and> t ! 7 = CHR ''-''
              \<and> list_all is_digit (take 4 t) \<and> list_all is_digit (take 2 (drop 5 t))
              \<and> list_all is_digit (drop 8 t)
           then (let d = \<lparr>year = int (nat_of_digits (take 4 t)),
                          month = nat_of_digits (take 2 (drop 5 t)),
                          day = nat_of_digits (drop 8 t)\<rparr>
                 in if calendar_date d then Some d else None)
           else None))"


text \<open>
  The interpreter's services on which the scrapers are run: a reader of unsigned decimal
  integers, and exact arithmetic.
\<close>

definition digits_to_float :: "string \<Rightarrow> pyfloat option" where
  "digits_to_float s =
     (if s \<noteq> [] \<and> list_all is_digit s then Some (Finite (of_nat (nat_of_digits s))) else None)"

definition plain_floats :: floats where
  "plain_floats = \<lparr>str_to_float = digits_to_float, to_double = (\<lambda>r. r)\<rparr>"

subsection \<open>Identifier from a path\<close>

text \<open>
  \<^verbatim>\<open>
  def mid(path):
      m = re.search(r"/movie/(\d+)", path or ""); return int(m.group(1)) if m else None
  \<close>
  The leftmost place where \<^verbatim>\<open>/movie/\<close> is followed by a digit matches, and the
  group is the longest run of digits there. \<^verbatim>\<open>parse_tmdb_id_from_url\<close> of
  step1\_scraping\_unified.py is the same function.
\<close>

fun re_search_movie :: "string \<Rightarrow> string option" where
  "re_search_movie [] = None"
| "re_search_movie (c # cs) =
     (if take 7 (c # cs) = ''/movie/'' \<and> takeWhile is_digit (drop 7 (c # cs)) \<noteq> []
      then Some (takeWhile is_digit (drop 7 (c # cs)))
      else re_search_movie cs)"

definition mid :: "string option \<Rightarrow> int option" where
  "mid path =
     (case re_search_movie (case path of None \<Rightarrow> [] | Some p \<Rightarrow> p) of
        Some g \<Rightarrow> Some (int (nat_of_digits g))
      | None \<Rightarrow> None)"

section \<open>Documents and output rows\<close>

text \<open>
  A parsed document (\<^verbatim>\<open>BeautifulSoup(text, "html.parser")\<close>) and each of its tags
  answer CSS selectors with the matching tags in document order, and carry their text and
  attributes. Every strategy parses with the same parser, so a page is identified with
  its parsed form.
\<close>

datatype node =
  Node (node_text: string) (node_attr: "string \<Rightarrow> string option") (node_select: "string \<Rightarrow> node list")

definition select_one :: "node \<Rightarrow> string \<Rightarrow> node option" where
  "select_one n sel = (case node_select n sel of [] \<Rightarrow> None | t # _ \<Rightarrow> Some t)"

text \<open>The canonical row: the nine columns of \<^verbatim>\<open>HEADERS\<close> (\<open>method_tag\<close> is the
  column \<^verbatim>\<open>method\<close>).\<close>

record movie =
  tmdb_id :: pyval
  title :: pyval
  release_date :: pyval
  rating :: pyval
  overview :: pyval
  genres :: pyval
  poster_url :: pyval
  movie_url :: pyval
  method_tag :: pyval

definition BASE_URL :: string where
  "BASE_URL = ''https://www.themoviedb.org''"

section \<open>The network and the browser\<close>

text \<open>
  What the remote side answers is not part of the program; it is a parameter \<open>w\<close> of
  every scraper. A request either raises (after the retries mounted on the session are
  used up) or returns a response: its \<^verbatim>\<open>ok\<close> flag, the length of its content, the
  time it took and what the body holds. The \<open>payload\<close> of a JSON body is \<open>None\<close>
  when \<^verbatim>\<open>r.json()\<close> raises on it.
\<close>

datatype route = Direct | Tor

record 'a response =
  ok :: bool
  content_len :: int
  latency :: rat
  payload :: 'a

datatype 'a http_result = Raises | Response "'a response"

text \<open>
  An entry of \<^verbatim>\<open>results\<close> in the answer of the API's listing endpoint; \<open>None\<close>
  stands for a key that is missing or \<^verbatim>\<open>null\<close> (for \<open>it_original_title\<close>, read with
  a default, the outer \<open>None\<close> is the missing key).
\<close>

record api_item =
  it_id :: "int option"
  it_title :: "string option"
  it_original_title :: "string option option"
  it_release_date :: "string option"
  it_vote_average :: pyval
  it_overview :: "string option"
  it_poster_path :: "string option"
  it_genre_ids :: "int list"

text \<open>
  The browser: how a navigation to a URL goes on the \<open>k\<close>-th attempt, whether
  \<^verbatim>\<open>window.stop()\<close> raises then, and the page the browser holds afterwards
  (\<^verbatim>\<open>driver.page_source\<close>, read as a field: its length, the time taken to read it and
  its parsed form).
\<close>

datatype page_load = Completes rat | BrowserError | OtherError

record page =
  src_len :: int
  read_latency :: rat
  page_dom :: node

record world =
  tor_check :: "unit http_result"
  genre_list :: "route \<Rightarrow> (int \<times> string) list option http_result"
  popular :: "route \<Rightarrow> nat \<Rightarrow> api_item list option http_result"
  html :: "route \<Rightarrow> string \<Rightarrow> node http_result"
  browser :: "route \<Rightarrow> string \<Rightarrow> nat \<Rightarrow> page_load"
  stop_raises :: "route \<Rightarrow> string \<Rightarrow> nat \<Rightarrow> bool"
  page_source :: "route \<Rightarrow> string \<Rightarrow> page"

text \<open>
  \<^verbatim>\<open>driver.get(url)\<close> under \<^verbatim>\<open>set_page_load_timeout(timeout)\<close>: it returns when the
  page completes within the timeout, raises TimeoutException when the timeout elapses
  first, and raises another exception on a transport-level error.
\<close>

datatype get_outcome = Returned | Raised py_exc

definition driver_get :: "int \<Rightarrow> page_load \<Rightarrow> get_outcome" where
  "driver_get timeout l =
     (case l of
        Completes t \<Rightarrow> if t \<le> of_int timeout then Returned else Raised TimeoutException
      | BrowserError \<Rightarrow> Raised WebDriverException
      | OtherError \<Rightarrow> Raised OtherException)"

section \<open>The proxy runner (step3c\_proxy\_tor\_runner.py)\<close>

subsection \<open>Metrics\<close>

text \<open>
  \<^verbatim>\<open>
  class Metrics:
      def __init__(self): self.n=0; self.b=0; self.ts=[]
      def rec(self, dt, sz): self.n+=1; self.b+=max(0,int(sz)); self.ts.append(max(0.0,float(dt)))
      def sum(self):
          avg = (sum(self.ts)/len(self.ts)*1000.0) if self.ts else 0.0
          return {"requests": self.n, "bytes": self.b, "avg_latency_ms": round(avg,2),
                  "total_latency_s": round(sum(self.ts),3)}
  \<close>
  The wall-clock entry \<^verbatim>\<open>elapsed_s\<close>, which each scraper adds to the summary, is left
  out.
\<close>

record metrics_tor =
  tor_n :: int
  tor_b :: int
  tor_ts :: "rat list"

definition Metrics_tor_init :: metrics_tor where
  "Metrics_tor_init = \<lparr>tor_n = 0, tor_b = 0, tor_ts = []\<rparr>"

definition Metrics_rec :: "metrics_tor \<Rightarrow> rat \<Rightarrow> int \<Rightarrow> metrics_tor" where
  "Metrics_rec M dt sz =
     M\<lparr>tor_n := tor_n M + 1, tor_b := tor_b M + max 0 sz, tor_ts := tor_ts M @ [max 0 dt]\<rparr>"

definition Metrics_sum :: "metrics_tor \<Rightarrow> py_exc + summary" where
  "Metrics_sum M =
     (case (if tor_ts M \<noteq> []
            then (case py_truediv (sum_list (tor_ts M)) (of_nat (length (tor_ts M))) of
                    Inl e \<Rightarrow> Inl e
                  | Inr q \<Rightarrow> Inr (q * 1000))
            else Inr 0) of
        Inl e \<Rightarrow> Inl e
      | Inr avg \<Rightarrow>
          Inr \<lparr>requests = tor_n M, bytes = tor_b M, avg_latency_ms = py_round avg 2,
               total_latency_s = py_round (sum_list (tor_ts M)) 3\<rparr>)"

subsection \<open>Sessions and routes\<close>

text \<open>
  \<^verbatim>\<open>
  TOR_PROXY = "socks5h://127.0.0.1:9050"
  def make_session(proxies=None):
      s = requests.Session()
      ...
      if proxies: s.proxies.update(proxies)
      return s
  def check_tor():
      try:
          r = requests.get("https://check.torproject.org/api/ip",
                           proxies={"http":TOR_PROXY,"https":TOR_PROXY}, timeout=12)
          ok = r.ok
          return ok
      except Exception as e:
          return False
  \<close>
  A session is the proxy dictionary it carries; every URL requested is an
  \<^verbatim>\<open>https\<close> one, so the session goes through Tor exactly when that scheme is mapped
  to the Tor proxy. The browser goes through Tor exactly when its arguments hold the
  proxy-server switch.
\<close>

type_synonym proxies = "(string \<times> string) list"

definition TOR_PROXY :: string where
  "TOR_PROXY = ''socks5h://127.0.0.1:9050''"

definition tor_proxies :: proxies where
  "tor_proxies = [(''http'', TOR_PROXY), (''https'', TOR_PROXY)]"

definition truthy_proxies :: "proxies option \<Rightarrow> bool" where
  "truthy_proxies p = (case p of None \<Rightarrow> False | Some d \<Rightarrow> d \<noteq> [])"

definition make_session :: "proxies option \<Rightarrow> proxies" where
  "make_session p = (case p of None \<Rightarrow> [] | Some d \<Rightarrow> if d \<noteq> [] then d else [])"

definition session_route :: "proxies \<Rightarrow> route" where
  "session_route s = (if map_of s ''https'' = Some TOR_PROXY then Tor else Direct)"

definition chrome_args :: "bool \<Rightarrow> bool \<Rightarrow> string list" where
  "chrome_args use_tor headless =
     (if headless then [''--headless=new''] else []) @
     [''--disable-gpu'', ''--no-sandbox'', ''--disable-dev-shm-usage'', ''--window-size=1920,1080'',
      ''--disable-extensions'', ''--disable-background-networking'', ''--dns-prefetch-disable'',
      ''--disable-client-side-phishing-detection''] @
     (if use_tor then [''--proxy-server=socks5://127.0.0.1:9050''] else [])"

definition browser_route :: "string list \<Rightarrow> route" where
  "browser_route args = (if ''--proxy-server=socks5://127.0.0.1:9050'' \<in> set args then Tor else Direct)"

definition check_tor :: "world \<Rightarrow> bool" where
  "check_tor w = (case tor_check w of Raises \<Rightarrow> False | Response r \<Rightarrow> ok r)"

definition listing_url :: "nat \<Rightarrow> string" where
  "listing_url page = BASE_URL @ ''/movie?page='' @ str_nat page"

definition detail_url :: "int \<Rightarrow> string" where
  "detail_url i = BASE_URL @ ''/movie/'' @ str_int i"

subsection \<open>The API strategy\<close>

text \<open>
  \<^verbatim>\<open>
  def fetch_genre_map(session, metrics):
      url = ...
      t0 = time.time()
      r = session.get(url, timeout=20)
      metrics.rec(time.time()-t0, len(r.content))
      if not r.ok:
          return {}
      data = r.json() or {}
      return {g.get("id"): g.get("name") for g in data.get("genres", [])}
  \<close>
\<close>

definition fetch_genre_map ::
  "world \<Rightarrow> proxies \<Rightarrow> metrics_tor \<Rightarrow> py_exc + (int \<Rightarrow> string option) \<times> metrics_tor" where
  "fetch_genre_map w session M =
     (case genre_list w (session_route session) of
        Raises \<Rightarrow> Inl RequestException
      | Response r \<Rightarrow>
          (let M1 = Metrics_rec M (latency r) (content_len r)
           in if \<not> ok r then Inr (Map.empty, M1)
              else (case payload r of
                      None \<Rightarrow> Inl JSONDecodeError
                    | Some gs \<Rightarrow> Inr (map_of (rev gs), M1))))"

text \<open>
  \<^verbatim>\<open>
  def scrape_api(max_movies, proxies=None):
      M = Metrics(); rows=[]; page=1; got=0; start=time.time()
      session = make_session(proxies)
      genre_map = fetch_genre_map(session, M)
      while got < max_movies:
          url = f"...&page={page}"
          t0=time.time(); r = session.get(url, timeout=20); M.rec(time.time()-t0, len(r.content))
          data = r.json() if r.ok else {}
          for it in data.get("results", []):
              if got>=max_movies: break
              _id = it.get("id")
              gids = it.get("genre_ids", []) or []
              gnames = [genre_map.get(g, str(g)) for g in gids]
              genres_str = " | ".join([g for g in gnames if g]) if gnames else "N/A"
              rows.append({
                  "tmdb_id": _id,
                  "title": it.get("title") or it.get("original_title","N/A"),
                  "release_date": norm_date(it.get("release_date")),
                  "rating": norm_rating(it.get("vote_average")),
                  "overview": it.get("overview") or "N/A",
                  "genres": genres_str,
                  "poster_url": f"https://image.tmdb.org/t/p/w500{it.get('poster_path')}" if it.get("poster_path") else "N/A",
                  "movie_url": f"{BASE_URL}/movie/{_id}" if _id else "N/A",
                  "method": "API_TOR" if proxies else "API"
              })
              got+=1
          page+=1; time.sleep(DELAY + random.uniform(0.0,0.2))
      S = M.sum(); S["elapsed_s"]=round(time.time()-start,2)
      return rows, S
  \<close>
  The \<^verbatim>\<open>while\<close> loop has no exit other than its condition, so it may run forever:
  \<open>None\<close> is the run that does not return. An exception raised while a row is built
  (by \<^verbatim>\<open>norm_date\<close>) leaves the function.
\<close>

definition of_opt_int :: "int option \<Rightarrow> pyval" where
  "of_opt_int a = (case a of None \<Rightarrow> PyNone | Some i \<Rightarrow> PyInt i)"

definition truthy_str :: "string option \<Rightarrow> bool" where
  "truthy_str a = (case a of None \<Rightarrow> False | Some s \<Rightarrow> s \<noteq> [])"

definition api_row_tor ::
  "(string option \<Rightarrow> date option) \<Rightarrow> floats \<Rightarrow> (int \<Rightarrow> string option)
     \<Rightarrow> proxies option \<Rightarrow> api_item \<Rightarrow> py_exc + movie" where
  "api_row_tor to_datetime F genre_map proxies it =
     (let gnames = map (\<lambda>g. case genre_map g of Some name \<Rightarrow> name | None \<Rightarrow> str_int g) (it_genre_ids it);
          genres_str = (if gnames \<noteq> [] then py_join '' | '' (filter (\<lambda>g. g \<noteq> []) gnames) else NA)
      in case normalize_date to_datetime (it_release_date it) of
           Inl e \<Rightarrow> Inl e
         | Inr date_text \<Rightarrow>
         Inr \<lparr>tmdb_id = of_opt_int (it_id it),
          title = of_opt_str (py_or (it_title it)
                    (case it_original_title it of None \<Rightarrow> Some NA | Some v \<Rightarrow> v)),
          release_date = PyStr date_text,
          rating = normalize_rating F (it_vote_average it),
          overview = of_opt_str (py_or (it_overview it) (Some NA)),
          genres = PyStr genres_str,
          poster_url = PyStr (case it_poster_path it of
                                Some p \<Rightarrow> if p \<noteq> [] then ''https://image.tmdb.org/t/p/w500'' @ p else NA
                              | None \<Rightarrow> NA),
          movie_url = PyStr (case it_id it of
                               Some i \<Rightarrow> if i \<noteq> 0 then BASE_URL @ ''/movie/'' @ str_int i else NA
                             | None \<Rightarrow> NA),
          method_tag = PyStr (if truthy_proxies proxies then ''API_TOR'' else ''API'')\<rparr>)"

fun api_page_rows ::
  "(api_item \<Rightarrow> py_exc + movie) \<Rightarrow> int \<Rightarrow> api_item list \<Rightarrow> int \<Rightarrow> movie list
     \<Rightarrow> py_exc + int \<times> movie list" where
  "api_page_rows mk max_movies [] got rows = Inr (got, rows)"
| "api_page_rows mk max_movies (it # its) got rows =
     (if got \<ge> max_movies then Inr (got, rows)
      else (case mk it of
              Inl e \<Rightarrow> Inl e
            | Inr row \<Rightarrow> api_page_rows mk max_movies its (got + 1) (rows @ [row])))"

partial_function (option) scrape_api_pages ::
  "world \<Rightarrow> route \<Rightarrow> (api_item \<Rightarrow> py_exc + movie) \<Rightarrow> int \<Rightarrow> nat \<Rightarrow> int \<Rightarrow> movie list \<Rightarrow> metrics_tor
     \<Rightarrow> (py_exc + movie list \<times> metrics_tor) option" where
  "scrape_api_pages w rt mk max_movies page got rows M =
     (if got < max_movies then
        (case popular w rt page of
           Raises \<Rightarrow> Some (Inl RequestException)
         | Response r \<Rightarrow>
             (let M1 = Metrics_rec M (latency r) (content_len r)
              in case (if ok r then payload r else Some []) of
                   None \<Rightarrow> Some (Inl JSONDecodeError)
                 | Some results \<Rightarrow>
                     (case api_page_rows mk max_movies results got rows of
                        Inl e \<Rightarrow> Some (Inl e)
                      | Inr (got1, rows1) \<Rightarrow> scrape_api_pages w rt mk max_movies (page + 1) got1 rows1 M1)))
      else Some (Inr (rows, M)))"

declare scrape_api_pages.simps [code]

definition scrape_api ::
  "world \<Rightarrow> (string option \<Rightarrow> date option) \<Rightarrow> floats \<Rightarrow> int \<Rightarrow> proxies option
     \<Rightarrow> (py_exc + movie list \<times> summary) option" where
  "scrape_api w to_datetime F max_movies proxies =
     (let session = make_session proxies
      in case fetch_genre_map w session Metrics_tor_init of
           Inl e \<Rightarrow> Some (Inl e)
         | Inr (genre_map, M) \<Rightarrow>
             (case scrape_api_pages w (session_route session)
                     (api_row_tor to_datetime F genre_map proxies) max_movies 1 0 [] M of
                None \<Rightarrow> None
              | Some (Inl e) \<Rightarrow> Some (Inl e)
              | Some (Inr (rows, M1)) \<Rightarrow>
                  (case Metrics_sum M1 of Inl e \<Rightarrow> Some (Inl e) | Inr S \<Rightarrow> Some (Inr (rows, S)))))"

subsection \<open>The static-HTML strategy\<close>

text \<open>
  \<^verbatim>\<open>
  def get_ids_from_listing(max_ids, session, metrics):
      ids=[]; page=1
      while len(ids) < max_ids:
          list_url=f"{BASE_URL}/movie?page={page}"
          t0=time.time(); r = session.get(list_url, timeout=25); metrics.rec(time.time()-t0, len(r.content))
          if not r.ok: break
          soup=BeautifulSoup(r.text,"html.parser")
          cards = soup.select("div.card.style_1, div.card.style_2, div.card.style_3")
          for c in cards:
              a=c.select_one("h2 a[href^='/movie/']");
              if a and a.get("href"):
                  i = mid(a.get("href"));
                  if i: ids.append(i)
              if len(ids)>=max_ids: break
          page+=1; time.sleep(DELAY + random.uniform(0.0,0.25))
      return ids
  \<close>
\<close>

fun listing_cards :: "int \<Rightarrow> node list \<Rightarrow> int list \<Rightarrow> int list" where
  "listing_cards max_ids [] ids = ids"
| "listing_cards max_ids (c # cs) ids =
     (let ids1 =
        (case select_one c ''h2 a[href^='/movie/']'' of
           None \<Rightarrow> ids
         | Some a \<Rightarrow>
             (if truthy_str (node_attr a ''href'')
              then (case mid (node_attr a ''href'') of
                      None \<Rightarrow> ids
                    | Some i \<Rightarrow> if i \<noteq> 0 then ids @ [i] else ids)
              else ids))
      in if int (length ids1) \<ge> max_ids then ids1 else listing_cards max_ids cs ids1)"

partial_function (option) get_ids_pages ::
  "world \<Rightarrow> route \<Rightarrow> int \<Rightarrow> nat \<Rightarrow> int list \<Rightarrow> metrics_tor \<Rightarrow> (py_exc + int list \<times> metrics_tor) option" where
  "get_ids_pages w rt max_ids page ids M =
     (if int (length ids) < max_ids then
        (case html w rt (listing_url page) of
           Raises \<Rightarrow> Some (Inl RequestException)
         | Response r \<Rightarrow>
             (let M1 = Metrics_rec M (latency r) (content_len r)
              in if \<not> ok r then Some (Inr (ids, M1))
                 else get_ids_pages w rt max_ids (page + 1)
                        (listing_cards max_ids
                           (node_select (payload r) ''div.card.style_1, div.card.style_2, div.card.style_3'') ids)
                        M1))
      else Some (Inr (ids, M)))"

declare get_ids_pages.simps [code]

definition get_ids_from_listing ::
  "world \<Rightarrow> int \<Rightarrow> proxies \<Rightarrow> metrics_tor \<Rightarrow> (py_exc + int list \<times> metrics_tor) option" where
  "get_ids_from_listing w max_ids session M = get_ids_pages w (session_route session) max_ids 1 [] M"

text \<open>
  \<^verbatim>\<open>
  def fetch_detail_bs4(mid_, session, metrics):
      url=f"{BASE_URL}/movie/{mid_}"
      t0=time.time(); r = session.get(url, timeout=30); metrics.rec(time.time()-t0, len(r.content))
      if not r.ok: return None
      soup=BeautifulSoup(r.text,"html.parser")
      title_tag=soup.select_one("h2.title, h2 a, h2"); title=title_tag.text.strip() if title_tag else f"Movie {mid_}"
      release_date = soup.select_one("span.release") or soup.select_one(
          "span[itemprop='datePublished']")
      release_date = release_date.text.strip() if release_date else "N/A"
      overview_tag = soup.select_one("div.overview p, #overview p, div.facts p"); overview = overview_tag.text.strip() if overview_tag else "N/A"
      genres_tags = soup.select("span.genres a, a[href*='/genre/']"); genres = " | ".join([g.text.strip() for g in genres_tags]) if genres_tags else "N/A"
      rating_tag = soup.select_one("div.user_score_chart"); rating = norm_rating(rating_tag.get("data-percent")) if rating_tag else "N/A"
      poster_tag = soup.select_one("img.poster"); poster_url = (poster_tag.get("data-src") or poster_tag.get("src")) if poster_tag else "N/A"
      return {
          "tmdb_id": mid_, "title": title, "release_date": release_date, "rating": rating,
          "overview": overview, "genres": genres, "poster_url": poster_url, "movie_url": url, "method": "BS4_TOR"
      }
  \<close>
\<close>

definition fetch_detail_bs4 ::
  "world \<Rightarrow> floats \<Rightarrow> int \<Rightarrow> proxies \<Rightarrow> metrics_tor
     \<Rightarrow> py_exc + movie option \<times> metrics_tor" where
  "fetch_detail_bs4 w F mid' session M =
     (let url = detail_url mid'
      in case html w (session_route session) url of
           Raises \<Rightarrow> Inl RequestException
         | Response r \<Rightarrow>
             (let M1 = Metrics_rec M (latency r) (content_len r)
              in if \<not> ok r then Inr (None, M1)
                 else
                   (let soup = payload r;
                        title = (case select_one soup ''h2.title, h2 a, h2'' of
                                   Some t \<Rightarrow> py_strip (node_text t)
                                 | None \<Rightarrow> ''Movie '' @ str_int mid');
                        release_tag = (case select_one soup ''span.release'' of
                                         Some t \<Rightarrow> Some t
                                       | None \<Rightarrow> select_one soup ''span[itemprop='datePublished']'');
                        release = (case release_tag of Some t \<Rightarrow> py_strip (node_text t) | None \<Rightarrow> NA);
                        overview_text = (case select_one soup ''div.overview p, #overview p, div.facts p'' of
                                      Some t \<Rightarrow> py_strip (node_text t) | None \<Rightarrow> NA);
                        genres_tags = node_select soup ''span.genres a, a[href*='/genre/']'';
                        genres_text = (if genres_tags \<noteq> []
                                  then py_join '' | '' (map (\<lambda>g. py_strip (node_text g)) genres_tags)
                                  else NA);
                        rating_val = (case select_one soup ''div.user_score_chart'' of
                                    Some t \<Rightarrow> normalize_rating F (of_opt_str (node_attr t ''data-percent''))
                                  | None \<Rightarrow> PyStr NA);
                        poster = (case select_one soup ''img.poster'' of
                                    Some t \<Rightarrow> of_opt_str (py_or (node_attr t ''data-src'') (node_attr t ''src''))
                                  | None \<Rightarrow> PyStr NA)
                    in Inr (Some \<lparr>tmdb_id = PyInt mid', title = PyStr title, release_date = PyStr release,
                                  rating = rating_val, overview = PyStr overview_text, genres = PyStr genres_text,
                                  poster_url = poster, movie_url = PyStr url,
                                  method_tag = PyStr ''BS4_TOR''\<rparr>, M1))))"

text \<open>
  \<^verbatim>\<open>
  def scrape_bs4(max_movies, proxies=None):
      session = make_session(proxies); M = Metrics(); rows=[]; start=time.time()
      ids = get_ids_from_listing(max_movies*2, session, M)[:max_movies]
      for i in ids:
          row = fetch_detail_bs4(i, session, M)
          if row: rows.append(row); time.sleep(DELAY + random.uniform(0.0,0.25))
      S = M.sum(); S["elapsed_s"]=round(time.time()-start,2)
      return rows, S
  \<close>
\<close>

fun bs4_details ::
  "world \<Rightarrow> floats \<Rightarrow> proxies \<Rightarrow> int list \<Rightarrow> movie list \<Rightarrow> metrics_tor
     \<Rightarrow> py_exc + movie list \<times> metrics_tor" where
  "bs4_details w F session [] rows M = Inr (rows, M)"
| "bs4_details w F session (i # ids) rows M =
     (case fetch_detail_bs4 w F i session M of
        Inl e \<Rightarrow> Inl e
      | Inr (None, M1) \<Rightarrow> bs4_details w F session ids rows M1
      | Inr (Some row, M1) \<Rightarrow> bs4_details w F session ids (rows @ [row]) M1)"

definition scrape_bs4 ::
  "world \<Rightarrow> floats \<Rightarrow> int \<Rightarrow> proxies option \<Rightarrow> (py_exc + movie list \<times> summary) option" where
  "scrape_bs4 w F max_movies proxies =
     (let session = make_session proxies
      in case get_ids_from_listing w (max_movies * 2) session Metrics_tor_init of
           None \<Rightarrow> None
         | Some (Inl e) \<Rightarrow> Some (Inl e)
         | Some (Inr (all_ids, M)) \<Rightarrow>
             (case bs4_details w F session (py_take max_movies all_ids) [] M of
                Inl e \<Rightarrow> Some (Inl e)
              | Inr (rows, M1) \<Rightarrow>
                  (case Metrics_sum M1 of Inl e \<Rightarrow> Some (Inl e) | Inr S \<Rightarrow> Some (Inr (rows, S)))))"

subsection \<open>The headless-browser strategy\<close>

text \<open>
  \<^verbatim>\<open>
  SEL_PAGELOAD_TIMEOUT = int(os.getenv("SEL_PAGELOAD_TIMEOUT", "60"))
  SEL_RETRIES = int(os.getenv("SEL_RETRIES", "2"))

  def safe_get(driver, url, timeout=SEL_PAGELOAD_TIMEOUT, retries=SEL_RETRIES):
      for attempt in range(retries + 1):
          try:
              driver.set_page_load_timeout(timeout)
              driver.get(url)
              return True, "ok", None
          except TimeoutException as e:
              try:
                  driver.execute_script("window.stop();")
              except Exception:
                  pass
              return True, "partial", e
          except WebDriverException as e:
              if attempt >= retries:
                  return False, "error", e
              time.sleep(3.0 + attempt * 2.0)
          except Exception as e:
              if attempt >= retries:
                  return False, "error", e
              time.sleep(3.0 + attempt * 2.0)
      return False, "error", None
  \<close>
  \<open>drv k\<close> is how the \<open>k\<close>-th navigation to the URL goes and \<open>stop k\<close> whether
  \<^verbatim>\<open>window.stop()\<close> raises after it. The result is the triple the function returns; an
  exception that leaves the function would be a fourth outcome, which the model shows not
  to exist.
\<close>

record config =
  sel_pageload_timeout :: int
  sel_retries :: int

fun safe_get_attempts ::
  "(nat \<Rightarrow> page_load) \<Rightarrow> (nat \<Rightarrow> bool) \<Rightarrow> int \<Rightarrow> int \<Rightarrow> nat list \<Rightarrow> bool \<times> string \<times> py_exc option" where
  "safe_get_attempts drv stop timeout retries [] = (False, ''error'', None)"
| "safe_get_attempts drv stop timeout retries (attempt # rest) =
     (case driver_get timeout (drv attempt) of
        Returned \<Rightarrow> (True, ''ok'', None)
      | Raised e \<Rightarrow>
          (if e = TimeoutException then
             (if stop attempt then (True, ''partial'', Some e) else (True, ''partial'', Some e))
           else if e = WebDriverException then
             (if int attempt \<ge> retries then (False, ''error'', Some e)
              else safe_get_attempts drv stop timeout retries rest)
           else
             (if int attempt \<ge> retries then (False, ''error'', Some e)
              else safe_get_attempts drv stop timeout retries rest)))"

definition safe_get ::
  "(nat \<Rightarrow> page_load) \<Rightarrow> (nat \<Rightarrow> bool) \<Rightarrow> int \<Rightarrow> int \<Rightarrow> bool \<times> string \<times> py_exc option" where
  "safe_get drv stop timeout retries =
     safe_get_attempts drv stop timeout retries [0 ..< nat (retries + 1)]"

text \<open>
  \<^verbatim>\<open>
  def scrape_selenium(max_movies, use_tor=True, headless=True):
      opts = Options()
      ...
      if use_tor: opts.add_argument("--proxy-server=socks5://127.0.0.1:9050")
      drv = webdriver.Chrome(service=Service(ChromeDriverManager().install()), options=opts)
      drv.set_script_timeout(60)
      # session for fallback when Selenium navigation fails
      fallback_session = make_session({"http": TOR_PROXY, "https": TOR_PROXY} if use_tor else None)
      M = Metrics(); rows=[]; page=1; start=time.time()
      try:
          # collect IDs from listing pages
          ids=[]
          while len(ids) < max_movies:
              url=f"{BASE_URL}/movie?page={page}"
              ok, mode, exc = safe_get(drv, url)
              t0 = time.time()
              html = drv.page_source
              M.rec(time.time()-t0, len(html.encode("utf-8")))
              if not ok and mode == "error":
                  break
              soup=BeautifulSoup(html,"html.parser")
              cards=soup.select("div.card.style_1, div.card.style_2, div.card.style_3")
              for c in cards:
                  a=c.select_one("h2 a[href^='/movie/']");
                  if a and a.get("href"):
                      i=mid(a.get("href"))
                      if i and i not in ids: ids.append(i)
                  if len(ids)>=max_movies: break
              page+=1; time.sleep(DELAY + random.uniform(0.0,0.25))
          # visit each detail page
          for i in ids[:max_movies]:
              url=f"{BASE_URL}/movie/{i}"
              ok, mode, exc = safe_get(drv, url)
              t1 = time.time()
              html = drv.page_source
              M.rec(time.time()-t1, len(html.encode("utf-8")))
              if not ok and mode == "error":
                  # fallback via requests over Tor (so we still fill fields)
                  try:
                      rt0 = time.time()
                      rr = fallback_session.get(url, timeout=30)
                      M.rec(time.time()-rt0, len(rr.content))
                      if rr.ok:
                          s=BeautifulSoup(rr.text,"html.parser")
                      else:
                          continue
                  except Exception as e:
                      continue
              else:
                  s=BeautifulSoup(html,"html.parser")
              title_tag=s.select_one("h2.title, h2 a, h2"); title=title_tag.text.strip() if title_tag else f"Movie {i}"
              release_date = s.select_one("span.release") or s.select_one(
                  "span[itemprop='datePublished']")
              release_date = release_date.text.strip() if release_date else "N/A"
              overview_tag = s.select_one("div.overview p, #overview p, div.facts p"); overview = overview_tag.text.strip() if overview_tag else "N/A"
              genres_tags = s.select("span.genres a, a[href*='/genre/']"); genres = " | ".join([g.text.strip() for g in genres_tags]) if genres_tags else "N/A"
              rating_tag = s.select_one("div.user_score_chart"); rating = norm_rating(rating_tag.get("data-percent")) if rating_tag else "N/A"
              poster_tag = s.select_one("img.poster"); poster_url = (poster_tag.get("data-src") or poster_tag.get("src")) if poster_tag else "N/A"
              rows.append({
                  "tmdb_id": i,"title": title,"release_date": release_date,"rating": rating,
                  "overview": overview,"genres": genres,"poster_url": poster_url,
                  "movie_url": url,"method": "Selenium_TOR" if use_tor else "Selenium"
              })
              time.sleep(DELAY + random.uniform(0.0,0.3))
      finally:
          drv.quit()
      S = M.sum(); S["elapsed_s"]=round(time.time()-start,2)
      return rows, S
  \<close>
  The browser is taken to start. No call in the two loops can raise then: \<open>safe_get\<close>
  returns a triple on every path and the fallback request sits in its own
  \<^verbatim>\<open>try\<close>. The listing loop may run forever.
\<close>

fun selenium_cards :: "int \<Rightarrow> node list \<Rightarrow> int list \<Rightarrow> int list" where
  "selenium_cards max_movies [] ids = ids"
| "selenium_cards max_movies (c # cs) ids =
     (let ids1 =
        (case select_one c ''h2 a[href^='/movie/']'' of
           None \<Rightarrow> ids
         | Some a \<Rightarrow>
             (if truthy_str (node_attr a ''href'')
              then (case mid (node_attr a ''href'') of
                      None \<Rightarrow> ids
                    | Some i \<Rightarrow> if i \<noteq> 0 \<and> i \<notin> set ids then ids @ [i] else ids)
              else ids))
      in if int (length ids1) \<ge> max_movies then ids1 else selenium_cards max_movies cs ids1)"

partial_function (option) selenium_listing ::
  "world \<Rightarrow> route \<Rightarrow> config \<Rightarrow> int \<Rightarrow> nat \<Rightarrow> int list \<Rightarrow> metrics_tor \<Rightarrow> (int list \<times> metrics_tor) option" where
  "selenium_listing w drv cfg max_movies page ids M =
     (if int (length ids) < max_movies then
        (let url = listing_url page;
             res = safe_get (browser w drv url) (stop_raises w drv url)
                     (sel_pageload_timeout cfg) (sel_retries cfg);
             pg = page_source w drv url;
             M1 = Metrics_rec M (read_latency pg) (src_len pg)
         in if \<not> fst res \<and> fst (snd res) = ''error'' then Some (ids, M1)
            else selenium_listing w drv cfg max_movies (page + 1)
                   (selenium_cards max_movies
                      (node_select (page_dom pg) ''div.card.style_1, div.card.style_2, div.card.style_3'') ids)
                   M1)
      else Some (ids, M))"

declare selenium_listing.simps [code]

definition selenium_row :: "floats \<Rightarrow> bool \<Rightarrow> int \<Rightarrow> string \<Rightarrow> node \<Rightarrow> movie" where
  "selenium_row F use_tor i url s =
     (let title = (case select_one s ''h2.title, h2 a, h2'' of
                     Some t \<Rightarrow> py_strip (node_text t)
                   | None \<Rightarrow> ''Movie '' @ str_int i);
          release_tag = (case select_one s ''span.release'' of
                           Some t \<Rightarrow> Some t
                         | None \<Rightarrow> select_one s ''span[itemprop='datePublished']'');
          release = (case release_tag of Some t \<Rightarrow> py_strip (node_text t) | None \<Rightarrow> NA);
          overview_text = (case select_one s ''div.overview p, #overview p, div.facts p'' of
                             Some t \<Rightarrow> py_strip (node_text t) | None \<Rightarrow> NA);
          genres_tags = node_select s ''span.genres a, a[href*='/genre/']'';
          genres_text = (if genres_tags \<noteq> []
                         then py_join '' | '' (map (\<lambda>g. py_strip (node_text g)) genres_tags)
                         else NA);
          rating_val = (case select_one s ''div.user_score_chart'' of
                          Some t \<Rightarrow> normalize_rating F (of_opt_str (node_attr t ''data-percent''))
                        | None \<Rightarrow> PyStr NA);
          poster = (case select_one s ''img.poster'' of
                      Some t \<Rightarrow> of_opt_str (py_or (node_attr t ''data-src'') (node_attr t ''src''))
                    | None \<Rightarrow> PyStr NA)
      in \<lparr>tmdb_id = PyInt i, title = PyStr title, release_date = PyStr release,
          rating = rating_val, overview = PyStr overview_text, genres = PyStr genres_text,
          poster_url = poster, movie_url = PyStr url,
          method_tag = PyStr (if use_tor then ''Selenium_TOR'' else ''Selenium'')\<rparr>)"

fun selenium_details ::
  "world \<Rightarrow> config \<Rightarrow> floats \<Rightarrow> bool \<Rightarrow> route \<Rightarrow> proxies \<Rightarrow> int list
     \<Rightarrow> movie list \<Rightarrow> metrics_tor \<Rightarrow> movie list \<times> metrics_tor" where
  "selenium_details w cfg F use_tor drv fallback_session [] rows M = (rows, M)"
| "selenium_details w cfg F use_tor drv fallback_session (i # ids) rows M =
     (let url = detail_url i;
          res = safe_get (browser w drv url) (stop_raises w drv url)
                  (sel_pageload_timeout cfg) (sel_retries cfg);
          pg = page_source w drv url;
          M1 = Metrics_rec M (read_latency pg) (src_len pg)
      in if \<not> fst res \<and> fst (snd res) = ''error'' then
           (case html w (session_route fallback_session) url of
              Raises \<Rightarrow> selenium_details w cfg F use_tor drv fallback_session ids rows M1
            | Response rr \<Rightarrow>
                (let M2 = Metrics_rec M1 (latency rr) (content_len rr)
                 in if ok rr
                    then selenium_details w cfg F use_tor drv fallback_session ids
                           (rows @ [selenium_row F use_tor i url (payload rr)]) M2
                    else selenium_details w cfg F use_tor drv fallback_session ids rows M2))
         else selenium_details w cfg F use_tor drv fallback_session ids
                (rows @ [selenium_row F use_tor i url (page_dom pg)]) M1)"

definition scrape_selenium ::
  "world \<Rightarrow> config \<Rightarrow> floats \<Rightarrow> int \<Rightarrow> bool \<Rightarrow> bool
     \<Rightarrow> (py_exc + movie list \<times> summary) option" where
  "scrape_selenium w cfg F max_movies use_tor headless =
     (let drv = browser_route (chrome_args use_tor headless);
          fallback_session = make_session (if use_tor then Some tor_proxies else None)
      in case selenium_listing w drv cfg max_movies 1 [] Metrics_tor_init of
           None \<Rightarrow> None
         | Some (ids, M) \<Rightarrow>
             (case selenium_details w cfg F use_tor drv fallback_session
                     (py_take max_movies ids) [] M of
                (rows, M1) \<Rightarrow>
                  (case Metrics_sum M1 of Inl e \<Rightarrow> Some (Inl e) | Inr S \<Rightarrow> Some (Inr (rows, S)))))"

subsection \<open>The entry point\<close>

text \<open>
  \<^verbatim>\<open>
  use_tor = (args.proxy == "tor")
  proxies = {"http": TOR_PROXY, "https": TOR_PROXY} if (use_tor and check_tor()) else None
  api_rows, api_m = scrape_api(args.max, proxies=proxies)
  bs_rows, bs_m  = scrape_bs4(args.max, proxies=proxies)
  se_rows, se_m  = scrape_selenium(args.max, use_tor=(proxies is not None))
  \<close>
  The result is the three row lists with their metrics summaries, \<open>Inl\<close> when a
  scraper raises (the script has no handler) and \<open>None\<close> when one does not return.
\<close>

definition main ::
  "world \<Rightarrow> (string option \<Rightarrow> date option) \<Rightarrow> floats \<Rightarrow> config \<Rightarrow> string \<Rightarrow> int
     \<Rightarrow> (py_exc + (movie list \<times> summary) \<times> (movie list \<times> summary) \<times> (movie list \<times> summary)) option" where
  "main w to_datetime F cfg proxy max_arg =
     (let use_tor = (proxy = ''tor'');
          proxies = (if use_tor \<and> check_tor w then Some tor_proxies else None)
      in case scrape_api w to_datetime F max_arg proxies of
           None \<Rightarrow> None
         | Some (Inl e) \<Rightarrow> Some (Inl e)
         | Some (Inr api) \<Rightarrow>
             (case scrape_bs4 w F max_arg proxies of
                None \<Rightarrow> None
              | Some (Inl e) \<Rightarrow> Some (Inl e)
              | Some (Inr bs) \<Rightarrow>
                  (case scrape_selenium w cfg F max_arg (proxies \<noteq> None) True of
                     None \<Rightarrow> None
                   | Some (Inl e) \<Rightarrow> Some (Inl e)
                   | Some (Inr se) \<Rightarrow> Some (Inr (api, bs, se)))))"

section \<open>The unified runner (step1\_scraping\_unified.py)\<close>

subsection \<open>The API strategy\<close>

text \<open>
  \<^verbatim>\<open>
  def fetch_genre_map(session, metrics: Metrics):
      url = ...
      t0 = time.time()
      resp = session.get(url, timeout=15)
      metrics.record(time.time() - t0, len(resp.content))
      data = resp.json() if resp.ok else {"genres": []}
      return {g.get("id"): g.get("name") for g in data.get("genres", [])}

  def scrape_api(max_movies=MAX_MOVIES):
      session = make_session()
      metrics = Metrics()
      genre_map = fetch_genre_map(session, metrics)
      movies, page, fetched = [], 1, 0
      while fetched < max_movies:
          url = f"...&page={page}"
          t0 = time.time()
          resp = session.get(url, timeout=15)
          latency = time.time() - t0
          metrics.record(latency, len(resp.content))
          data = resp.json() if resp.ok else {}
          results = data.get("results", [])
          if not results:
              break
          for item in results:
              if fetched >= max_movies:
                  break
              tmdb_id = item.get("id")
              genre_names = [genre_map.get(gid, str(gid)) for gid in item.get("genre_ids", [])]
              movies.append({
                  "tmdb_id": tmdb_id,
                  "title": item.get("title") or item.get("original_title", "N/A"),
                  "release_date": normalize_date(item.get("release_date")),
                  "rating": normalize_rating(item.get("vote_average")),
                  "overview": item.get("overview") or "N/A",
                  "genres": " | ".join(genre_names) if genre_names else "N/A",
                  "poster_url": f"https://image.tmdb.org/t/p/w500{item.get('poster_path')}" if item.get("poster_path") else "N/A",
                  "movie_url": f"{BASE_URL}/movie/{tmdb_id}" if tmdb_id else "N/A",
                  "method": "API",
              })
              fetched += 1
          page += 1
          time.sleep(DELAY + random.uniform(0.0, 0.25))
      msum = metrics.summary(); ...
      return movies, msum
  \<close>
  The session of this runner carries no proxy. The inner \<^verbatim>\<open>for\<close> loop is the one of
  the proxy runner (\<open>api_page_rows\<close>). An exception raised while a row is built (by
  \<^verbatim>\<open>normalize_date\<close>) leaves the function.
\<close>

definition fetch_genre_map1 ::
  "world \<Rightarrow> metrics \<Rightarrow> py_exc + (int \<Rightarrow> string option) \<times> metrics" where
  "fetch_genre_map1 w M =
     (case genre_list w Direct of
        Raises \<Rightarrow> Inl RequestException
      | Response resp \<Rightarrow>
          (let M1 = Metrics_record M (latency resp) (content_len resp)
           in case (if ok resp then payload resp else Some []) of
                None \<Rightarrow> Inl JSONDecodeError
              | Some gs \<Rightarrow> Inr (map_of (rev gs), M1)))"

definition api_row ::
  "(string option \<Rightarrow> date option) \<Rightarrow> floats \<Rightarrow> (int \<Rightarrow> string option)
     \<Rightarrow> api_item \<Rightarrow> py_exc + movie" where
  "api_row to_datetime F genre_map item =
     (let genre_names = map (\<lambda>gid. case genre_map gid of Some name \<Rightarrow> name | None \<Rightarrow> str_int gid)
                          (it_genre_ids item)
      in case normalize_date to_datetime (it_release_date item) of
           Inl e \<Rightarrow> Inl e
         | Inr date_text \<Rightarrow>
         Inr \<lparr>tmdb_id = of_opt_int (it_id item),
          title = of_opt_str (py_or (it_title item)
                    (case it_original_title item of None \<Rightarrow> Some NA | Some v \<Rightarrow> v)),
          release_date = PyStr date_text,
          rating = normalize_rating F (it_vote_average item),
          overview = of_opt_str (py_or (it_overview item) (Some NA)),
          genres = PyStr (if genre_names \<noteq> [] then py_join '' | '' genre_names else NA),
          poster_url = PyStr (case it_poster_path item of
                                Some p \<Rightarrow> if p \<noteq> [] then ''https://image.tmdb.org/t/p/w500'' @ p else NA
                              | None \<Rightarrow> NA),
          movie_url = PyStr (case it_id item of
                               Some i \<Rightarrow> if i \<noteq> 0 then BASE_URL @ ''/movie/'' @ str_int i else NA
                             | None \<Rightarrow> NA),
          method_tag = PyStr ''API''\<rparr>)"

text \<open>The inner loop never loses ground, and takes at least one entry when it may.\<close>

lemma api_page_rows_mono:
  "api_page_rows mk max_movies its got rows = Inr (got1, rows1) \<Longrightarrow> got \<le> got1"
  by (induction mk max_movies its got rows rule: api_page_rows.induct)
    (auto split: if_splits sum.splits)

lemma api_page_rows_progress:
  assumes "api_page_rows mk max_movies its got rows = Inr (got1, rows1)"
    and "got < max_movies" and "its \<noteq> []"
  shows "got < got1"
proof -
  from assms(3) obtain it rest where its: "its = it # rest" by (cases its) auto
  from assms(1,2) its obtain row where
    "api_page_rows mk max_movies rest (got + 1) (rows @ [row]) = Inr (got1, rows1)"
    by (auto split: sum.splits)
  from api_page_rows_mono [OF this] show ?thesis by simp
qed

function scrape_api1_pages ::
  "world \<Rightarrow> (api_item \<Rightarrow> py_exc + movie) \<Rightarrow> int \<Rightarrow> nat \<Rightarrow> int \<Rightarrow> movie list \<Rightarrow> metrics
     \<Rightarrow> py_exc + movie list \<times> metrics" where
  "scrape_api1_pages w mk max_movies page fetched movies M =
     (if fetched < max_movies then
        (case popular w Direct page of
           Raises \<Rightarrow> Inl RequestException
         | Response resp \<Rightarrow>
             (let M1 = Metrics_record M (latency resp) (content_len resp)
              in case (if ok resp then payload resp else Some []) of
                   None \<Rightarrow> Inl JSONDecodeError
                 | Some results \<Rightarrow>
                     if results = [] then Inr (movies, M1)
                     else (case api_page_rows mk max_movies results fetched movies of
                             Inl e \<Rightarrow> Inl e
                           | Inr (fetched1, movies1) \<Rightarrow>
                               scrape_api1_pages w mk max_movies (page + 1) fetched1 movies1 M1)))
      else Inr (movies, M))"
  by pat_completeness auto
termination
proof (relation "measure (\<lambda>(w, mk, max_movies, page, fetched, movies, M). nat (max_movies - fetched))",
    goal_cases)
  case 1
  show ?case by simp
next
  case (2 w mk max_movies page fetched movies M resp M1 results pr fetched1 movies1)
  from 2(6,7) have "api_page_rows mk max_movies results fetched movies = Inr (fetched1, movies1)"
    by simp
  from api_page_rows_progress [OF this 2(1) 2(5)] 2(1) show ?case by simp
qed

definition scrape_api1 ::
  "world \<Rightarrow> (string option \<Rightarrow> date option) \<Rightarrow> floats \<Rightarrow> int
     \<Rightarrow> py_exc + movie list \<times> summary" where
  "scrape_api1 w to_datetime F max_movies =
     (case fetch_genre_map1 w Metrics_init of
        Inl e \<Rightarrow> Inl e
      | Inr (genre_map, M) \<Rightarrow>
          (case scrape_api1_pages w (api_row to_datetime F genre_map) max_movies 1 0 [] M of
             Inl e \<Rightarrow> Inl e
           | Inr (movies, M1) \<Rightarrow>
               (case Metrics_summary M1 of Inl e \<Rightarrow> Inl e | Inr msum \<Rightarrow> Inr (movies, msum))))"

subsection \<open>The join\<close>

text \<open>
  \<^verbatim>\<open>
  def build_common_by_id(api_movies, bs4_movies, selenium_movies):
      # Handle empty inputs - if any method was skipped, return empty
      if not api_movies or not bs4_movies or not selenium_movies:
          empty_df = pd.DataFrame(columns=[...])
          empty_df.to_csv(CSV_COMMON, index=False)
          return 0
      # Side-by-side join by tmdb_id to keep intersection of all three
      a = pd.DataFrame(api_movies)
      b = pd.DataFrame(bs4_movies)
      s = pd.DataFrame(selenium_movies)
      a_ = a[[...]].rename(columns=lambda c: f"{c}_api" if c != "tmdb_id" else c)
      b_ = b[[...]].rename(columns=lambda c: f"{c}_bs4" if c != "tmdb_id" else c)
      s_ = s[[...]].rename(columns=lambda c: f"{c}_selenium" if c != "tmdb_id" else c)
      common = a_.merge(b_, on="tmdb_id").merge(s_, on="tmdb_id")
      # Also produce a tidy one-row-per-movie CSV using API as canonical values
      tidy = common[["tmdb_id", "title_api", ..., "movie_url_api"]].rename(columns={...})
      tidy.to_csv(CSV_COMMON, index=False)
      return len(tidy)
  \<close>
  \<^verbatim>\<open>merge\<close> is the inner join of pandas: one output row for every pair of a left and a
  right row with the same key, in the order of the left rows; rows whose key is missing
  match each other. \<open>build_common_rows\<close> is the frame written to the common CSV (its left
  component of each joined row, the API row, restricted to the eight joined columns), and
  the function returns its length.
\<close>

record tidy =
  t_tmdb_id :: pyval
  t_title :: pyval
  t_release_date :: pyval
  t_rating :: pyval
  t_overview :: pyval
  t_genres :: pyval
  t_poster_url :: pyval
  t_movie_url :: pyval

definition tidy_of :: "movie \<Rightarrow> tidy" where
  "tidy_of r = \<lparr>t_tmdb_id = tmdb_id r, t_title = title r, t_release_date = release_date r,
                t_rating = rating r, t_overview = overview r, t_genres = genres r,
                t_poster_url = poster_url r, t_movie_url = movie_url r\<rparr>"

definition merge_on :: "('l \<Rightarrow> pyval) \<Rightarrow> ('r \<Rightarrow> pyval) \<Rightarrow> 'l list \<Rightarrow> 'r list \<Rightarrow> ('l \<times> 'r) list" where
  "merge_on kl kr ls rs = concat (map (\<lambda>l. map (\<lambda>r. (l, r)) (filter (\<lambda>r. kr r = kl l) rs)) ls)"

definition build_common_rows :: "movie list \<Rightarrow> movie list \<Rightarrow> movie list \<Rightarrow> tidy list" where
  "build_common_rows api_movies bs4_movies selenium_movies =
     (if api_movies = [] \<or> bs4_movies = [] \<or> selenium_movies = [] then []
      else
        (let common = merge_on (\<lambda>(a, b). tmdb_id a) tmdb_id
                        (merge_on tmdb_id tmdb_id api_movies bs4_movies) selenium_movies
         in map (\<lambda>((a, b), s). tidy_of a) common))"

definition build_common_by_id :: "movie list \<Rightarrow> movie list \<Rightarrow> movie list \<Rightarrow> int" where
  "build_common_by_id api_movies bs4_movies selenium_movies =
     int (length (build_common_rows api_movies bs4_movies selenium_movies))"

section \<open>Concrete environments\<close>

text \<open>
  A small catalogue on which the scrapers are run: a listing page with two cards, a detail
  page with a title and a score, an API listing with two entries. In \<open>demo_world\<close> the
  Tor probe fails, every request is answered and the browser loads every page in one
  second.
\<close>

definition leaf :: "string \<Rightarrow> (string \<times> string) list \<Rightarrow> node" where
  "leaf txt attrs = Node txt (map_of attrs) (\<lambda>sel. [])"

definition card :: "string \<Rightarrow> node" where
  "card href =
     Node [] (\<lambda>k. None)
       (\<lambda>sel. if sel = ''h2 a[href^='/movie/']'' then [leaf ''A film'' [(''href'', href)]] else [])"

definition listing_page :: "string list \<Rightarrow> node" where
  "listing_page hrefs =
     Node [] (\<lambda>k. None)
       (\<lambda>sel. if sel = ''div.card.style_1, div.card.style_2, div.card.style_3''
              then map card hrefs else [])"

definition detail_page :: node where
  "detail_page =
     Node [] (\<lambda>k. None)
       (\<lambda>sel. if sel = ''h2.title, h2 a, h2'' then [leaf '' Heat '' []]
              else if sel = ''div.user_score_chart'' then [leaf [] [(''data-percent'', ''85'')]]
              else [])"

definition respond :: "bool \<Rightarrow> 'a \<Rightarrow> 'a http_result" where
  "respond is_ok body = Response \<lparr>ok = is_ok, content_len = 100, latency = 1 / 10, payload = body\<rparr>"

definition demo_item :: "int \<Rightarrow> api_item" where
  "demo_item i =
     \<lparr>it_id = Some i, it_title = Some ''A film'', it_original_title = None,
      it_release_date = Some ''1995-12-15'', it_vote_average = PyFloat (Finite (79 / 10)),
      it_overview = None, it_poster_path = None, it_genre_ids = [28]\<rparr>"

definition demo_world :: world where
  "demo_world =
     \<lparr>tor_check = Raises,
      genre_list = (\<lambda>rt. respond True (Some [(28, ''Action'')])),
      popular = (\<lambda>rt page. respond True (Some [demo_item 5, demo_item 6])),
      html = (\<lambda>rt url. if url = listing_url 1
                         then respond True (listing_page [''/movie/5'', ''/movie/6-heat''])
                         else respond True detail_page),
      browser = (\<lambda>rt url k. Completes 1),
      stop_raises = (\<lambda>rt url k. False),
      page_source = (\<lambda>rt url. \<lparr>src_len = 100, read_latency = 1 / 100,
                                 page_dom = (if url = listing_url 1
                                             then listing_page [''/movie/5'', ''/movie/6-heat'']
                                             else detail_page)\<rparr>)\<rparr>"

text \<open>The source is exhausted: the API answers every listing request with an error status.\<close>

definition exhausted_world :: world where
  "exhausted_world = demo_world\<lparr>popular := (\<lambda>rt page. respond False None)\<rparr>"



definition default_config :: config where
  "default_config = \<lparr>sel_pageload_timeout = 60, sel_retries = 2\<rparr>"

text \<open>Rows for the join: the same film scraped twice by one strategy.\<close>

definition film :: "int \<Rightarrow> string \<Rightarrow> string \<Rightarrow> movie" where
  "film i name tag =
     \<lparr>tmdb_id = PyInt i, title = PyStr name, release_date = PyStr ''1995-12-15'',
      rating = PyFloat (Finite (79 / 10)), overview = PyStr NA, genres = PyStr ''Action'',
      poster_url = PyStr NA, movie_url = PyStr (detail_url i), method_tag = PyStr tag\<rparr>"

section \<open>Properties of the metrics collector\<close>





text \<open>
  On a fresh accumulator the quotient of the sum and the number of latencies would raise
  ZeroDivisionError; \<open>summary\<close> does not evaluate it.
\<close>

lemma unguarded_division_raises:
  "py_truediv (sum_list (latencies Metrics_init)) (of_nat (length (latencies Metrics_init)))
     = Inl ZeroDivisionError"
  by (simp add: py_truediv_def Metrics_init_def)

text \<open>
  C10. \<open>summary\<close> on an accumulator with no sample takes the guarded branch: it does
  not divide and does not raise, and returns 0 requests, 0 bytes, an average latency of 0
  and a total latency of 0. Both the single-threaded and the multithreaded runner's class
  do so.
\<close>

theorem summary_of_empty_metrics:
  "Metrics_summary Metrics_init =
     Inr \<lparr>requests = 0, bytes = 0, avg_latency_ms = 0, total_latency_s = 0\<rparr> \<and>
   MetricsMT_summary MetricsMT_init =
     Inr \<lparr>requests = 0, bytes = 0, avg_latency_ms = 0, total_latency_s = 0\<rparr>"
  by (simp add: Metrics_summary_def Metrics_init_def MetricsMT_summary_def MetricsMT_init_def
      py_round_def round_half_even_def)

section \<open>Properties of the record normalizer\<close>

subsection \<open>Ratings\<close>

lemma py_float_clamp:
  "py_max (Finite 0) (py_min (Finite 10) (Finite v)) = Finite (clamp v 0 10)"
  by (simp add: py_max_def py_min_def clamp_def)

text \<open>
  An integer too large for a float is a number above 10, and the function answers with
  the sentinel: \<^verbatim>\<open>float\<close> raises OverflowError and the handler catches it.
\<close>

theorem normalize_rating_huge_integer_counterexample:
  "(10 :: int) < 10 ^ 400 \<and>
   normalize_rating plain_floats (PyInt (10 ^ 400)) = PyStr ''N/A'' \<and>
   normalize_rating plain_floats (PyInt (10 ^ 400)) \<noteq>
     PyFloat (Finite (round_float plain_floats (clamp (div_float plain_floats (of_int (10 ^ 400)) 10) 0 10) 1))"
  by (simp add: normalize_rating_def py_float_def int_overflows_def NA_def)

text \<open>
  The infinities and NaN are clamped like any float: the function returns 10.0, 0.0 and
  10.0 for them. It returns a finite float or the sentinel on every input.
\<close>

lemma normalize_rating_special_values:
  "normalize_rating F (PyFloat PosInf) = PyFloat (Finite (round_float F 10 1)) \<and>
   normalize_rating F (PyFloat NegInf) = PyFloat (Finite (round_float F 0 1)) \<and>
   normalize_rating F (PyFloat NaN) = PyFloat (Finite (round_float F 10 1))"
  by (simp add: normalize_rating_def py_float_def py_max_def py_min_def round_float_def)

lemma normalize_rating_total:
  "(\<exists>v. normalize_rating F x = PyFloat (Finite v)) \<or> normalize_rating F x = PyStr ''N/A''"
proof (cases "py_float F x")
  case (Inl e)
  then show ?thesis by (simp add: normalize_rating_def NA_def)
next
  case (Inr v0)
  then show ?thesis
    by (cases v0) (simp_all add: normalize_rating_def Let_def py_max_def py_min_def)
qed


text \<open>
  C3. When \<^verbatim>\<open>float(x)\<close> returns the finite number \<open>r\<close>: for \<open>r > 10\<close> the result is
  \<open>round(clamp(r / 10, 0, 10), 1)\<close>, and for \<open>0 \<le> r \<le> 10\<close> it is \<open>round(r, 1)\<close>,
  the division and the rounding being the interpreter's float operations. When
  \<^verbatim>\<open>float(x)\<close> raises (the input is not a number, or is an integer too large for a
  float), the result is the sentinel. The function has no other outcome, so it never
  raises.
\<close>

theorem normalize_rating_spec:
  "(py_float F x = Inr (Finite r) \<longrightarrow> 10 < r \<longrightarrow>
      normalize_rating F x = PyFloat (Finite (round_float F (clamp (div_float F r 10) 0 10) 1))) \<and>
   (py_float F x = Inr (Finite r) \<longrightarrow> 0 \<le> r \<and> r \<le> 10 \<longrightarrow>
      normalize_rating F x = PyFloat (Finite (round_float F r 1))) \<and>
   (py_float F x = Inl e \<longrightarrow> normalize_rating F x = PyStr ''N/A'')"
  by (auto simp: normalize_rating_def NA_def Let_def py_float_clamp round_float_def div_float_def
      clamp_def)

theorem normalize_rating_spec_witness:
  "py_float plain_floats (PyStr ''85'') = Inr (Finite 85) \<and> (10::rat) < 85 \<and>
   normalize_rating plain_floats (PyStr ''85'') = PyFloat (Finite (17 / 2)) \<and>
   py_float plain_floats (PyFloat (Finite (29 / 4))) = Inr (Finite (29 / 4)) \<and>
   (0::rat) \<le> 29 / 4 \<and> (29 / 4 :: rat) \<le> 10 \<and>
   normalize_rating plain_floats (PyFloat (Finite (29 / 4))) = PyFloat (Finite (36 / 5)) \<and>
   py_float plain_floats (PyStr ''8.5/10'') = Inl ValueError \<and>
   normalize_rating plain_floats (PyStr ''8.5/10'') = PyStr ''N/A'' \<and>
   py_float plain_floats PyNone = Inl TypeError \<and>
   normalize_rating plain_floats PyNone = PyStr ''N/A'' \<and>
   py_float plain_floats (PyInt (2 ^ 1024)) = Inl OverflowError \<and>
   normalize_rating plain_floats (PyInt (2 ^ 1024)) = PyStr ''N/A''"
proof -
  have a: "py_float plain_floats (PyStr ''85'') = Inr (Finite 85)"
    by (simp add: py_float_def plain_floats_def digits_to_float_def is_digit_def nat_of_digits_def
        digit_val_def)
  have b: "py_float plain_floats (PyFloat (Finite (29 / 4))) = Inr (Finite (29 / 4))"
    by (simp add: py_float_def)
  have c: "py_float plain_floats (PyStr ''8.5/10'') = Inl ValueError"
    by (simp add: py_float_def plain_floats_def digits_to_float_def is_digit_def)
  have d: "py_float plain_floats PyNone = Inl TypeError"
    by (simp add: py_float_def)
  have e: "py_float plain_floats (PyInt (2 ^ 1024)) = Inl OverflowError"
    by (simp add: py_float_def int_overflows_def)
  have r1: "round_float plain_floats (clamp (div_float plain_floats 85 10) 0 10) 1 = 17 / 2"
    by (simp add: round_float_def div_float_def plain_floats_def py_round_def round_half_even_def
        clamp_def)
  have fl: "\<lfloor>145 / 2 :: rat\<rfloor> = 72"
    by (rule floor_unique) simp_all
  have r2: "round_float plain_floats (29 / 4) 1 = 36 / 5"
    by (simp add: round_float_def plain_floats_def py_round_def round_half_even_def Let_def fl)
  from a b c d e r1 r2
    normalize_rating_spec [of plain_floats "PyStr ''85''" 85 TypeError]
    normalize_rating_spec [of plain_floats "PyFloat (Finite (29 / 4))" "29 / 4" TypeError]
    normalize_rating_spec [of plain_floats "PyStr ''8.5/10''" 0 ValueError]
    normalize_rating_spec [of plain_floats PyNone 0 TypeError]
    normalize_rating_spec [of plain_floats "PyInt (2 ^ 1024)" 0 OverflowError]
  show ?thesis by simp
qed


subsection \<open>Printing and reading dates\<close>










lemma nat_of_digits_bound:
  "list_all is_digit ds \<Longrightarrow> nat_of_digits ds < 10 ^ length ds"
proof (induction ds rule: rev_induct)
  case Nil
  show ?case by (simp add: nat_of_digits_def)
next
  case (snoc c ds)
  then have "nat_of_digits ds < 10 ^ length ds" and "digit_val c < 10"
    by (auto simp: is_digit_def digit_val_def)
  then show ?case by (simp add: nat_of_digits_def)
qed








text \<open>A date of the year 0 cannot be printed, and the function raises.\<close>

lemma normalize_date_year_zero_raises:
  "iso_to_datetime (Some ''0000-01-01'') = Some \<lparr>year = 0, month = 1, day = 1\<rparr> \<and>
   normalize_date iso_to_datetime (Some ''0000-01-01'') = Inl NotImplementedError"
  by code_simp



section \<open>Properties of the navigation state machine\<close>











section \<open>Properties of the proxy runner\<close>

subsection \<open>Method tags\<close>

text \<open>
  The static-HTML strategy writes the Tor tag into every row, whatever session it is given.
\<close>

lemma fetch_detail_bs4_tag:
  "fetch_detail_bs4 w sf i session M = Inr (Some row, M1) \<Longrightarrow> method_tag row = PyStr ''BS4_TOR''"
  by (auto simp: fetch_detail_bs4_def Let_def split: http_result.splits if_splits)

lemma bs4_details_tags:
  assumes "bs4_details w sf session ids rows M = Inr (rows1, M1)"
    and "\<forall>r \<in> set rows. method_tag r = PyStr ''BS4_TOR''"
  shows "\<forall>r \<in> set rows1. method_tag r = PyStr ''BS4_TOR''"
  using assms
proof (induction ids arbitrary: rows M)
  case Nil
  then show ?case by simp
next
  case (Cons i ids)
  show ?case
  proof (cases "fetch_detail_bs4 w sf i session M")
    case (Inl e)
    with Cons.prems show ?thesis by simp
  next
    case (Inr res)
    obtain row M2 where res: "res = (row, M2)" by (cases res)
    show ?thesis
    proof (cases row)
      case None
      with Cons.prems Inr res have "bs4_details w sf session ids rows M2 = Inr (rows1, M1)" by simp
      from Cons.IH [OF this Cons.prems(2)] show ?thesis .
    next
      case (Some r)
      with Cons.prems Inr res have run: "bs4_details w sf session ids (rows @ [r]) M2 = Inr (rows1, M1)"
        by simp
      from Inr res Some have "method_tag r = PyStr ''BS4_TOR''"
        by (auto dest: fetch_detail_bs4_tag)
      with Cons.prems(2) have "\<forall>x \<in> set (rows @ [r]). method_tag x = PyStr ''BS4_TOR''" by simp
      from Cons.IH [OF run this] show ?thesis .
    qed
  qed
qed

lemma scrape_bs4_tags:
  assumes "scrape_bs4 w sf max_movies proxies = Some (Inr (rows, S))"
  shows "\<forall>r \<in> set rows. method_tag r = PyStr ''BS4_TOR''"
proof -
  from assms obtain all_ids M M1 where
    "bs4_details w sf (make_session proxies) (py_take max_movies all_ids) [] M = Inr (rows, M1)"
    by (auto simp: scrape_bs4_def Let_def split: option.splits sum.splits prod.splits)
  from bs4_details_tags [OF this] show ?thesis by simp
qed

text \<open>The browser strategy tags its rows by the route it was started with.\<close>

lemma selenium_details_tags:
  assumes "selenium_details w cfg sf use_tor drv fs ids rows M = (rows1, M1)"
    and "\<forall>r \<in> set rows. method_tag r = PyStr (if use_tor then ''Selenium_TOR'' else ''Selenium'')"
  shows "\<forall>r \<in> set rows1. method_tag r = PyStr (if use_tor then ''Selenium_TOR'' else ''Selenium'')"
  using assms
proof (induction ids arbitrary: rows M)
  case Nil
  then show ?case by simp
next
  case (Cons i ids)
  have tag: "method_tag (selenium_row sf use_tor i u s) =
      PyStr (if use_tor then ''Selenium_TOR'' else ''Selenium'')" for u s
    by (simp add: selenium_row_def Let_def)
  from Cons.prems(1) obtain rows2 M2 where
    run: "selenium_details w cfg sf use_tor drv fs ids rows2 M2 = (rows1, M1)"
    and rows2: "rows2 = rows \<or> (\<exists>u s. rows2 = rows @ [selenium_row sf use_tor i u s])"
    by (auto simp: Let_def split: if_splits http_result.splits)
  from rows2 Cons.prems(2) tag
  have "\<forall>r \<in> set rows2. method_tag r = PyStr (if use_tor then ''Selenium_TOR'' else ''Selenium'')"
    by auto
  from Cons.IH [OF run this] show ?case .
qed

text \<open>The API strategy tags its rows by the proxies it is given; without proxies the tag is direct.\<close>

lemma api_page_rows_tags:
  "\<forall>it row. mk it = Inr row \<longrightarrow> method_tag row = t \<Longrightarrow> \<forall>r \<in> set rows. method_tag r = t \<Longrightarrow>
   api_page_rows mk max_movies its got rows = Inr (got1, rows1) \<Longrightarrow>
   \<forall>r \<in> set rows1. method_tag r = t"
  by (induction mk max_movies its got rows rule: api_page_rows.induct)
    (auto split: if_splits sum.splits)

lemma scrape_api_pages_tags:
  assumes "scrape_api_pages w rt mk max_movies page got rows M = Some res"
  shows "(\<forall>it row. mk it = Inr row \<longrightarrow> method_tag row = t) \<longrightarrow> (\<forall>r \<in> set rows. method_tag r = t) \<longrightarrow>
         (\<forall>rows1 M1. res = Inr (rows1, M1) \<longrightarrow> (\<forall>r \<in> set rows1. method_tag r = t))"
proof (rule scrape_api_pages.raw_induct
    [where P = "\<lambda>w rt mk max_movies page got rows M res.
       (\<forall>it row. mk it = Inr row \<longrightarrow> method_tag row = t) \<longrightarrow> (\<forall>r \<in> set rows. method_tag r = t) \<longrightarrow>
         (\<forall>rows1 M1. res = Inr (rows1, M1) \<longrightarrow> (\<forall>r \<in> set rows1. method_tag r = t))", OF _ assms])
  fix f w rt mk max_movies page got rows M and res :: "py_exc + movie list \<times> metrics_tor"
  assume IH: "\<And>w rt mk max_movies page got rows M res. f w rt mk max_movies page got rows M = Some res \<Longrightarrow>
      (\<forall>it row. mk it = Inr row \<longrightarrow> method_tag row = t) \<longrightarrow> (\<forall>r \<in> set rows. method_tag r = t) \<longrightarrow>
         (\<forall>rows1 M1. res = Inr (rows1, M1) \<longrightarrow> (\<forall>r \<in> set rows1. method_tag r = t))"
    and step: "(if got < max_movies then
        (case popular w rt page of
           Raises \<Rightarrow> Some (Inl RequestException)
         | Response r \<Rightarrow>
             (let M1 = Metrics_rec M (latency r) (content_len r)
              in case (if ok r then payload r else Some []) of
                   None \<Rightarrow> Some (Inl JSONDecodeError)
                 | Some results \<Rightarrow>
                     (case api_page_rows mk max_movies results got rows of
                        Inl e \<Rightarrow> Some (Inl e)
                      | Inr (got1, rows1) \<Rightarrow> f w rt mk max_movies (page + 1) got1 rows1 M1)))
      else Some (Inr (rows, M))) = Some res"
  show "(\<forall>it row. mk it = Inr row \<longrightarrow> method_tag row = t) \<longrightarrow> (\<forall>r \<in> set rows. method_tag r = t) \<longrightarrow>
         (\<forall>rows1 M1. res = Inr (rows1, M1) \<longrightarrow> (\<forall>r \<in> set rows1. method_tag r = t))"
  proof (intro impI allI)
    fix rows1 M1
    assume mk: "\<forall>it row. mk it = Inr row \<longrightarrow> method_tag row = t" and rows: "\<forall>r \<in> set rows. method_tag r = t"
      and res: "res = Inr (rows1, M1)"
    show "\<forall>r \<in> set rows1. method_tag r = t"
    proof (cases "got < max_movies")
      case False
      with step res rows show ?thesis by simp
    next
      case True
      with step res obtain r :: "api_item list option response" and results :: "api_item list"
        and got1 rows2 where
        pr: "api_page_rows mk max_movies results got rows = Inr (got1, rows2)" and
        call: "f w rt mk max_movies (page + 1) got1 rows2 (Metrics_rec M (latency r) (content_len r)) = Some res"
        by (auto simp: Let_def split: http_result.splits option.splits prod.splits sum.splits)
      from api_page_rows_tags [OF mk rows pr]
      have "\<forall>r \<in> set rows2. method_tag r = t" .
      with IH [OF call] mk res show ?thesis by blast
    qed
  qed
qed

lemma scrape_api_direct_tags:
  assumes "scrape_api w td sf max_movies None = Some (Inr (rows, S))"
  shows "\<forall>r \<in> set rows. method_tag r = PyStr ''API''"
proof -
  from assms obtain gm M M1 where
    run: "scrape_api_pages w (session_route (make_session None)) (api_row_tor td sf gm None)
            max_movies 1 0 [] M = Some (Inr (rows, M1))"
    by (auto simp: scrape_api_def Let_def split: sum.splits option.splits prod.splits)
  have "\<forall>it row. api_row_tor td sf gm None it = Inr row \<longrightarrow> method_tag row = PyStr ''API''"
    by (auto simp: api_row_tor_def Let_def truthy_proxies_def split: sum.splits)
  with scrape_api_pages_tags [OF run, of "PyStr ''API''"] show ?thesis by simp
qed

lemma scrape_selenium_direct_tags:
  assumes "scrape_selenium w cfg sf max_movies False headless = Some (Inr (rows, S))"
  shows "\<forall>r \<in> set rows. method_tag r = PyStr ''Selenium''"
proof -
  from assms obtain drv fs ids M M1 where
    "selenium_details w cfg sf False drv fs ids [] M = (rows, M1)"
    by (auto simp: scrape_selenium_def Let_def split: option.splits prod.splits sum.splits)
  from selenium_details_tags [OF this] show ?thesis by simp
qed

text \<open>
  C1. The Tor probe fails in \<open>demo_world\<close> and the run is started with
  \<^verbatim>\<open>--proxy tor --max 1\<close>. The run completes on the direct route; the API row and the
  browser row carry the direct tags, and the static-HTML row carries the tag
  \<^verbatim>\<open>BS4_TOR\<close>.
\<close>

theorem probe_failure_bs4_row_keeps_tor_tag:
  "\<not> check_tor demo_world \<and>
   map_option (map_sum id (\<lambda>((a, ma), (b, mb), (s, ms)).
                  (map method_tag a, map method_tag b, map method_tag s)))
     (main demo_world iso_to_datetime plain_floats default_config ''tor'' 1) =
   Some (Inr ([PyStr ''API''], [PyStr ''BS4_TOR''], [PyStr ''Selenium'']))"
  by code_simp

subsection \<open>Pagination\<close>

text \<open>
  The listing loop of the proxy runner's API strategy has no exit for an empty page: when
  no page holds a result and the target is not reached, it does not return.
\<close>

lemma scrape_api_pages_no_result:
  assumes "scrape_api_pages w rt mk max_movies page got rows M = Some res"
  shows "(\<forall>p. \<exists>r. popular w rt p = Response r \<and> (if ok r then payload r else Some []) = Some [])
           \<longrightarrow> got < max_movies \<longrightarrow> False"
proof (rule scrape_api_pages.raw_induct
    [where P = "\<lambda>w rt mk max_movies page got rows M res.
       (\<forall>p. \<exists>r. popular w rt p = Response r \<and> (if ok r then payload r else Some []) = Some [])
           \<longrightarrow> got < max_movies \<longrightarrow> False", OF _ assms])
  fix f w rt mk max_movies page got rows M and res :: "py_exc + movie list \<times> metrics_tor"
  assume IH: "\<And>w rt mk max_movies page got rows M res. f w rt mk max_movies page got rows M = Some res \<Longrightarrow>
      (\<forall>p. \<exists>r. popular w rt p = Response r \<and> (if ok r then payload r else Some []) = Some [])
           \<longrightarrow> got < max_movies \<longrightarrow> False"
    and step: "(if got < max_movies then
        (case popular w rt page of
           Raises \<Rightarrow> Some (Inl RequestException)
         | Response r \<Rightarrow>
             (let M1 = Metrics_rec M (latency r) (content_len r)
              in case (if ok r then payload r else Some []) of
                   None \<Rightarrow> Some (Inl JSONDecodeError)
                 | Some results \<Rightarrow>
                     (case api_page_rows mk max_movies results got rows of
                        Inl e \<Rightarrow> Some (Inl e)
                      | Inr (got1, rows1) \<Rightarrow> f w rt mk max_movies (page + 1) got1 rows1 M1)))
      else Some (Inr (rows, M))) = Some res"
  show "(\<forall>p. \<exists>r. popular w rt p = Response r \<and> (if ok r then payload r else Some []) = Some [])
           \<longrightarrow> got < max_movies \<longrightarrow> False"
  proof (intro impI)
    assume emp: "\<forall>p. \<exists>r. popular w rt p = Response r \<and> (if ok r then payload r else Some []) = Some []"
      and lt: "got < max_movies"
    from emp obtain r where r: "popular w rt page = Response r"
      "(if ok r then payload r else Some []) = Some []" by blast
    from step lt r have "f w rt mk max_movies (page + 1) got rows (Metrics_rec M (latency r) (content_len r)) = Some res"
      by (simp add: Let_def)
    from IH [OF this] emp lt show False by blast
  qed
qed

lemma scrape_api_pages_diverges:
  assumes "\<forall>p. \<exists>r. popular w rt p = Response r \<and> (if ok r then payload r else Some []) = Some []"
    and "got < max_movies"
  shows "scrape_api_pages w rt mk max_movies page got rows M = None"
proof (cases "scrape_api_pages w rt mk max_movies page got rows M")
  case None
  then show ?thesis .
next
  case (Some res)
  from scrape_api_pages_no_result [OF Some] assms show ?thesis by blast
qed

lemma fetch_genre_map_exhausted:
  "fetch_genre_map exhausted_world (make_session None) Metrics_tor_init =
     Inr (map_of (rev [(28, ''Action'')]), Metrics_rec Metrics_tor_init (1 / 10) 100)"
  by (simp add: fetch_genre_map_def exhausted_world_def demo_world_def respond_def Let_def)

text \<open>
  The listing loop of the unified runner leaves on the first empty page, without an error,
  and it returns on every input (it is a total function).
\<close>

lemma scrape_api1_pages_empty_page:
  assumes "fetched < max_movies" and "popular w Direct page = Response resp"
    and "(if ok resp then payload resp else Some []) = Some []"
  shows "scrape_api1_pages w mk max_movies page fetched movies M =
           Inr (movies, Metrics_record M (latency resp) (content_len resp))"
  using assms by (simp add: Let_def)

lemma scrape_api1_pages_target_reached:
  "max_movies \<le> fetched \<Longrightarrow> scrape_api1_pages w mk max_movies page fetched movies M = Inr (movies, M)"
  by simp

text \<open>Started with no row, it never returns more rows than the target.\<close>

lemma api_page_rows_count:
  "int (length rows) = got \<Longrightarrow> api_page_rows mk max_movies its got rows = Inr (got1, rows1) \<Longrightarrow>
   int (length rows1) = got1"
  by (induction mk max_movies its got rows rule: api_page_rows.induct)
    (auto split: if_splits sum.splits)

lemma api_page_rows_target:
  "got \<le> max_movies \<Longrightarrow> api_page_rows mk max_movies its got rows = Inr (got1, rows1) \<Longrightarrow>
   got1 \<le> max_movies"
  by (induction mk max_movies its got rows rule: api_page_rows.induct)
    (auto split: if_splits sum.splits)

lemma scrape_api1_pages_within_target:
  assumes "scrape_api1_pages w mk max_movies page fetched movies M = Inr (movies1, M1)"
    and "int (length movies) = fetched" and "fetched \<le> max_movies"
  shows "int (length movies1) \<le> max_movies"
  using assms
proof (induction w mk max_movies page fetched movies M rule: scrape_api1_pages.induct)
  case (1 w mk max_movies page fetched movies M)
  show ?case
  proof (cases "fetched < max_movies")
    case False
    with "1.prems" show ?thesis by simp
  next
    case True
    show ?thesis
    proof (cases "popular w Direct page")
      case Raises
      with True "1.prems" show ?thesis by simp
    next
      case (Response resp)
      show ?thesis
      proof (cases "if ok resp then payload resp else Some []")
        case None
        with True Response "1.prems" show ?thesis by (simp add: Let_def)
      next
        case (Some results)
        show ?thesis
        proof (cases "results = []")
          case True
          with \<open>fetched < max_movies\<close> Response Some "1.prems" show ?thesis by (simp add: Let_def)
        next
          case False
          show ?thesis
          proof (cases "api_page_rows mk max_movies results fetched movies")
            case (Inl e)
            with True Response Some False "1.prems"(1) show ?thesis by (simp add: Let_def)
          next
            case (Inr pr)
            obtain fetched1 movies2 where pr: "pr = (fetched1, movies2)" by (cases pr)
            from api_page_rows_count [OF "1.prems"(2) Inr [unfolded pr]]
            have cnt: "int (length movies2) = fetched1" .
            from api_page_rows_target [OF "1.prems"(3) Inr [unfolded pr]]
            have tgt: "fetched1 \<le> max_movies" .
            from True Response Some False Inr pr "1.prems"(1)
            have run: "scrape_api1_pages w mk max_movies (page + 1) fetched1 movies2
                (Metrics_record M (latency resp) (content_len resp)) = Inr (movies1, M1)"
              by (simp add: Let_def)
            from "1.IH" [OF True Response refl Some False Inr pr [symmetric] run cnt tgt]
            show ?thesis .
          qed
        qed
      qed
    qed
  qed
qed

lemma scrape_api1_exhausted_source_returns:
  "scrape_api1 exhausted_world iso_to_datetime plain_floats 30 =
     Inr ([], \<lparr>requests = 2, bytes = 200, avg_latency_ms = 100, total_latency_s = 1 / 5\<rparr>)"
  by code_simp

text \<open>
  C2. In \<open>exhausted_world\<close> every listing request of the API is answered with an error
  status, so every page yields zero candidates. The proxy runner's \<open>scrape_api\<close>, asked
  for 30 records on the direct route, does not return.
\<close>

theorem scrape_api_tor_exhausted_source_never_returns:
  "scrape_api exhausted_world iso_to_datetime plain_floats 30 None = None"
proof -
  have "\<forall>p. \<exists>r. popular exhausted_world rt p = Response r \<and> (if ok r then payload r else Some []) = Some []" for rt
    by (simp add: exhausted_world_def respond_def)
  from scrape_api_pages_diverges [OF this] show ?thesis
    by (simp add: scrape_api_def fetch_genre_map_exhausted Let_def)
qed

section \<open>Properties of the join\<close>

lemma merge_on_Cons:
  "merge_on kl kr (l # ls) rs = map (Pair l) (filter (\<lambda>r. kr r = kl l) rs) @ merge_on kl kr ls rs"
  by (simp add: merge_on_def)

lemma set_merge_on:
  "set (merge_on kl kr ls rs) = {(l, r). l \<in> set ls \<and> r \<in> set rs \<and> kr r = kl l}"
  by (auto simp: merge_on_def)

lemma length_merge_on:
  "length (merge_on kl kr ls rs) = (\<Sum>l\<leftarrow>ls. length (filter (\<lambda>r. kr r = kl l) rs))"
  by (induction ls) (simp_all add: merge_on_def)

lemma filter_key_distinct:
  "distinct (map kr rs) \<Longrightarrow> length (filter (\<lambda>r. kr r = k) rs) \<le> 1"
proof (induction rs)
  case Nil
  show ?case by simp
next
  case (Cons r rs)
  show ?case
  proof (cases "kr r = k")
    case True
    from Cons.prems have "kr r \<notin> kr ` set rs" by simp
    then have "\<forall>x \<in> set rs. kr x \<noteq> kr r" by (metis imageI)
    with True have "filter (\<lambda>x. kr x = k) rs = []"
      by (simp add: filter_empty_conv)
    with True show ?thesis by simp
  next
    case False
    with Cons show ?thesis by simp
  qed
qed

lemma length_merge_on_left:
  assumes "distinct (map kr rs)"
  shows "length (merge_on kl kr ls rs) \<le> length ls"
proof (induction ls)
  case Nil
  show ?case by (simp add: merge_on_def)
next
  case (Cons l ls)
  from filter_key_distinct [OF assms, of "kl l"] Cons show ?case
    by (simp add: merge_on_Cons)
qed

lemma count_matches:
  "(\<Sum>r\<leftarrow>rs. if kl l = kr r then 1 else 0) = length (filter (\<lambda>r. kr r = kl l) rs)"
proof (induction rs)
  case Nil
  show ?case by simp
next
  case (Cons r rs)
  show ?case
  proof (cases "kr r = kl l")
    case True
    with Cons show ?thesis by simp
  next
    case False
    then have "kl l \<noteq> kr r" by (rule not_sym)
    with False Cons show ?thesis by simp
  qed
qed

lemma length_merge_on_swap:
  "length (merge_on kl kr ls rs) = length (merge_on kr kl rs ls)"
proof (induction ls)
  case Nil
  show ?case by (simp add: length_merge_on)
next
  case (Cons l ls)
  have "length (merge_on kr kl rs (l # ls)) =
      (\<Sum>r\<leftarrow>rs. (if kl l = kr r then 1 else 0) + length (filter (\<lambda>l'. kl l' = kr r) ls))"
    unfolding length_merge_on by (rule arg_cong [where f = sum_list]) simp
  also have "\<dots> = (\<Sum>r\<leftarrow>rs. if kl l = kr r then 1 else 0) + length (merge_on kr kl rs ls)"
    unfolding length_merge_on by (rule sum_list_addf)
  also have "\<dots> = length (filter (\<lambda>r. kr r = kl l) rs) + length (merge_on kl kr ls rs)"
    unfolding count_matches Cons.IH ..
  finally show ?case by (simp add: merge_on_Cons)
qed

lemma length_merge_on_right:
  assumes "distinct (map kl ls)"
  shows "length (merge_on kl kr ls rs) \<le> length rs"
  by (subst length_merge_on_swap) (rule length_merge_on_left [OF assms])

lemma distinct_merge_on_keys:
  assumes "distinct (map kl ls)" and "distinct (map kr rs)"
  shows "distinct (map (\<lambda>(l, r). kl l) (merge_on kl kr ls rs))"
  using assms(1)
proof (induction ls)
  case Nil
  show ?case by (simp add: merge_on_def)
next
  case (Cons l ls)
  let ?m = "filter (\<lambda>r. kr r = kl l) rs"
  let ?rest = "map (\<lambda>(l, r). kl l) (merge_on kl kr ls rs)"
  from filter_key_distinct [OF assms(2), of "kl l"]
  have one: "?m = [] \<or> (\<exists>r. ?m = [r])"
    by (cases ?m) (auto simp: length_Suc_conv)
  from Cons.prems have fresh: "kl l \<notin> set ?rest"
    by (auto simp: set_merge_on)
  from Cons have rest: "distinct ?rest" by simp
  have split: "map (\<lambda>(l, r). kl l) (merge_on kl kr (l # ls) rs) = map (\<lambda>r. kl l) ?m @ ?rest"
    by (simp add: merge_on_Cons comp_def)
  from one show ?case
  proof
    assume "?m = []"
    with rest show ?thesis unfolding split by simp
  next
    assume "\<exists>r. ?m = [r]"
    then obtain r where "?m = [r]" ..
    with rest fresh show ?thesis unfolding split by simp
  qed
qed

text \<open>
  Every row of the join comes from a row of the first input whose identifier also occurs in
  the second and in the third input, and it carries that row's field values.
\<close>

lemma build_common_rows_origin:
  assumes "t \<in> set (build_common_rows A B S)"
  shows "\<exists>a \<in> set A. \<exists>b \<in> set B. \<exists>s \<in> set S.
           t = tidy_of a \<and> tmdb_id b = tmdb_id a \<and> tmdb_id s = tmdb_id a"
  using assms
  by (auto simp: build_common_rows_def set_merge_on Let_def split: if_splits)

text \<open>When no input holds an identifier twice, the join is no longer than any input.\<close>

lemma build_common_rows_bound:
  assumes "distinct (map tmdb_id A)" and "distinct (map tmdb_id B)" and "distinct (map tmdb_id S)"
  shows "length (build_common_rows A B S) \<le> min (length A) (min (length B) (length S))"
proof (cases "A = [] \<or> B = [] \<or> S = []")
  case True
  then show ?thesis by (simp add: build_common_rows_def)
next
  case False
  let ?ab = "merge_on tmdb_id tmdb_id A B"
  have len: "length (build_common_rows A B S) = length (merge_on (\<lambda>(a, b). tmdb_id a) tmdb_id ?ab S)"
    using False by (simp add: build_common_rows_def Let_def)
  have "length (merge_on (\<lambda>(a, b). tmdb_id a) tmdb_id ?ab S) \<le> length ?ab"
    by (rule length_merge_on_left [OF assms(3)])
  moreover have "length ?ab \<le> length A" by (rule length_merge_on_left [OF assms(2)])
  moreover have "length ?ab \<le> length B" by (rule length_merge_on_right [OF assms(1)])
  moreover have "length (merge_on (\<lambda>(a, b). tmdb_id a) tmdb_id ?ab S) \<le> length S"
    by (rule length_merge_on_right [OF distinct_merge_on_keys [OF assms(1,2)]])
  ultimately show ?thesis using len by simp
qed

text \<open>
  C4. The same film scraped twice by the API strategy and twice by the static-HTML
  strategy, and once by the browser strategy: the join has four rows, while the shortest
  input has one.
\<close>

theorem join_multiplies_duplicate_ids:
  "build_common_by_id [film 1 ''Heat'' ''API'', film 1 ''Heat'' ''API'']
     [film 1 ''Heat'' ''BS4'', film 1 ''Heat'' ''BS4''] [film 1 ''Heat'' ''Selenium''] = 4 \<and>
   min (length [film 1 ''Heat'' ''API'', film 1 ''Heat'' ''API''])
     (min (length [film 1 ''Heat'' ''BS4'', film 1 ''Heat'' ''BS4'']) (length [film 1 ''Heat'' ''Selenium''])) = 1"
  by code_simp

end
